theory Spec2Isabelle
  imports Complex_Main "HOL-Library.Word"
begin

section \<open>Statement nodes\<close>

text \<open>
  The parser is an external collaborator: it turns SQL text into typed statement nodes.
  The nodes below carry the fields that the audited functions read. A clause of a
  statement (table references, a WHERE expression, an ORDER BY list, a LIMIT) is only ever
  tested against nil and copied by those functions, so its content is kept as an opaque
  payload. A nil pointer or nil slice of the source is \<open>None\<close>.
\<close>

type_synonym int64 = "64 word"

type_synonym clause = string

datatype expr_node =
    AggregateFuncExpr string "expr_node list"
  | ValueExpr int64
  | OtherExpr string

record select_stmt =
  SQLCache :: bool
  Fields :: "expr_node list"
  From :: "clause option"
  Where :: "clause option"
  GroupBy :: "clause option"
  Having :: "clause option"
  OrderBy :: "clause option"
  Limit :: "clause option"

type_synonym union_stmt = string

datatype result_set_node =
    RsSelectStmt select_stmt
  | RsUnionStmt union_stmt
  | RsOther string

record insert_stmt =
  ins_Lists :: "clause list list option"
  ins_Select :: "result_set_node option"

record update_stmt =
  upd_TableRefs :: "clause option"
  upd_Where :: "clause option"
  upd_Order :: "clause option"
  upd_Limit :: "clause option"

record delete_stmt =
  del_TableRefs :: "clause option"
  del_Where :: "clause option"
  del_Order :: "clause option"
  del_Limit :: "clause option"

record table_name =
  tbl_Schema :: string
  tbl_Name :: string

datatype constraint_type =
    ConstraintNoConstraint
  | ConstraintPrimaryKey
  | ConstraintKey
  | ConstraintIndex
  | ConstraintUniq
  | ConstraintUniqKey
  | ConstraintUniqIndex
  | ConstraintForeignKey
  | ConstraintFulltext
  | ConstraintCheck

text \<open>The keys of a constraint are kept as the names of their columns
  (\<^verbatim>\<open>key.Column.Name.String()\<close>).\<close>

record constraint =
  con_Tp :: constraint_type
  con_Name :: string
  con_Keys :: "string list"

datatype alter_table_type =
    AlterTableAddConstraint
  | AlterTableRenameIndex
  | AlterTableOtherType string

record alter_table_spec =
  spec_Tp :: alter_table_type
  spec_Constraint :: "constraint option"
  FromKey :: string
  ToKey :: string

record alter_table_stmt =
  alt_Table :: table_name
  Specs :: "alter_table_spec list"

datatype index_key_type = IndexKeyTypeNone | IndexKeyTypeUnique | IndexKeyTypeSpatial | IndexKeyTypeFullText

record create_index_stmt =
  cix_KeyType :: index_key_type
  cix_Table :: table_name
  IndexName :: string
  IndexPartSpecifications :: "string list"

record create_table_stmt =
  crt_Table :: table_name
  Constraints :: "constraint list"

datatype stmt_node =
    SelectStmt select_stmt
  | InsertStmt insert_stmt
  | UpdateStmt update_stmt
  | DeleteStmt delete_stmt
  | UnionStmt union_stmt
  | AlterTableStmt alter_table_stmt
  | CreateIndexStmt create_index_stmt
  | CreateTableStmt create_table_stmt
  | OtherStmt string

section \<open>Errors\<close>

text \<open>
  Go errors are values. An error handed back unchanged from a collaborator keeps the
  collaborator's text; an error that the code builds itself has a constructor of its own,
  with the values its message is formatted from (\<open>Wrap err msg\<close> is
  \<^verbatim>\<open>errors.Wrap(err, msg)\<close>). A run-time panic (an index out of range, a nil
  pointer dereferenced) ends the function it happens in and every caller; it is kept as
  an error value of its own, which no branch of the code handles.
\<close>

datatype error =
    CollaboratorError string
  | ErrUnsupportedSqlType
  | GetSelectNodeFailed string
  | AffectRowSqlError
  | CheckSqlFailed string string error
  | GetExecutionPlanFailed string error
  | GetAffectedRowsFailed string error
  | RowCountLessThanOne string nat
  | HasEmptySql
  | TypeAssertionFailed
  | Wrap error string
  | PanicIndexOutOfRange
  | PanicNilDereference

section \<open>Affected-rows estimator (sqle/driver/mysql/util/util.go)\<close>

record explain_record =
  rec_Type :: string
  rec_Rows :: int64

text \<open>
  Modelled from the spec: the constant \<^verbatim>\<open>executor.ExplainRecordAccessTypeAll\<close>, which
  is not among the sources. The spec: the access type of a plan row that reports a full
  table scan; the comment of line 106 gives it as \<open>ALL\<close>.
\<close>

definition ExplainRecordAccessTypeAll :: string where
  "ExplainRecordAccessTypeAll = ''ALL''"

text \<open>The name of the count aggregate in the parser's nodes (\<^verbatim>\<open>ast.AggFuncCount\<close>).\<close>

definition AggFuncCount :: string where
  "AggFuncCount = ''count''"

text \<open>
  The collaborators of the estimator: the SQL parser (\<^verbatim>\<open>ParseOneSql\<close>), the
  restoring printer of the parser's nodes (\<^verbatim>\<open>Restore\<close> on a select node,
  \<^verbatim>\<open>restoreToSqlWithFlag\<close> on a union), the plan function handed in as
  \<^verbatim>\<open>explainRecordFunc\<close>, the live connection's \<^verbatim>\<open>QueryWithContext\<close>
  (its rows, each a list of column strings) and \<^verbatim>\<open>strconv.ParseInt\<close> in base 10
  and 64 bits.
\<close>

record estimator_env =
  ParseOneSql :: "string \<Rightarrow> error + stmt_node"
  Restore :: "select_stmt \<Rightarrow> error + string"
  restoreToSqlWithFlag :: "union_stmt \<Rightarrow> error + string"
  explainRecordFunc :: "string \<Rightarrow> error + explain_record list"
  QueryWithContext :: "string \<Rightarrow> error + string list list"
  ParseInt :: "string \<Rightarrow> error + int64"

text \<open>
  The calls made to the parser, to the plan function and to the live connection are
  logged, in order, with the SQL text submitted.
\<close>

datatype call = CallParse string | CallExplain string | CallQuery string

definition getCountFieldList :: "expr_node list" where
  "getCountFieldList = [AggregateFuncExpr AggFuncCount [ValueExpr 1]]"

definition newSelectWithCount :: select_stmt where
  "newSelectWithCount =
     \<lparr>SQLCache = True, Fields = getCountFieldList, From = None, Where = None,
      GroupBy = None, Having = None, OrderBy = None, Limit = None\<rparr>"

definition getSelectNodeFromSelect :: "select_stmt \<Rightarrow> select_stmt" where
  "getSelectNodeFromSelect stmt =
     (let newSelect = newSelectWithCount;
          newSelect = (if From stmt \<noteq> None then newSelect\<lparr>From := From stmt\<rparr> else newSelect);
          newSelect = (if Where stmt \<noteq> None then newSelect\<lparr>Where := Where stmt\<rparr> else newSelect);
          newSelect = (if OrderBy stmt \<noteq> None then newSelect\<lparr>OrderBy := OrderBy stmt\<rparr> else newSelect);
          newSelect = (if Limit stmt \<noteq> None then newSelect\<lparr>Limit := Limit stmt\<rparr> else newSelect)
      in newSelect)"

definition getSelectNodeFromUpdate :: "update_stmt \<Rightarrow> select_stmt" where
  "getSelectNodeFromUpdate stmt =
     (let newSelect = newSelectWithCount;
          newSelect = (if upd_TableRefs stmt \<noteq> None then newSelect\<lparr>From := upd_TableRefs stmt\<rparr> else newSelect);
          newSelect = (if upd_Where stmt \<noteq> None then newSelect\<lparr>Where := upd_Where stmt\<rparr> else newSelect);
          newSelect = (if upd_Order stmt \<noteq> None then newSelect\<lparr>OrderBy := upd_Order stmt\<rparr> else newSelect);
          newSelect = (if upd_Limit stmt \<noteq> None then newSelect\<lparr>Limit := upd_Limit stmt\<rparr> else newSelect)
      in newSelect)"

definition getSelectNodeFromDelete :: "delete_stmt \<Rightarrow> select_stmt" where
  "getSelectNodeFromDelete stmt =
     (let newSelect = newSelectWithCount;
          newSelect = (if del_TableRefs stmt \<noteq> None then newSelect\<lparr>From := del_TableRefs stmt\<rparr> else newSelect);
          newSelect = (if del_Where stmt \<noteq> None then newSelect\<lparr>Where := del_Where stmt\<rparr> else newSelect);
          newSelect = (if del_Order stmt \<noteq> None then newSelect\<lparr>OrderBy := del_Order stmt\<rparr> else newSelect);
          newSelect = (if del_Limit stmt \<noteq> None then newSelect\<lparr>Limit := del_Limit stmt\<rparr> else newSelect)
      in newSelect)"

text \<open>
  Modelled from the spec: the field \<^verbatim>\<open>IsSelectOnlyIncludeCountFunc\<close> of the visitor
  \<^verbatim>\<open>SelectFieldExtractor\<close>, whose code is not among the sources. The spec: the
  check verifies that the select list of the re-parsed statement is exactly a single count
  aggregate.
\<close>

fun IsSelectOnlyIncludeCountFunc :: "stmt_node \<Rightarrow> bool" where
  "IsSelectOnlyIncludeCountFunc (SelectStmt s) =
     (case Fields s of
        [AggregateFuncExpr f args] \<Rightarrow> f = AggFuncCount
      | _ \<Rightarrow> False)"
| "IsSelectOnlyIncludeCountFunc _ = False"

definition checkSql :: "estimator_env \<Rightarrow> string \<Rightarrow> error option" where
  "checkSql env affectRowSql =
     (case ParseOneSql env affectRowSql of
        Inl err \<Rightarrow> Some err
      | Inr node \<Rightarrow>
          if \<not> IsSelectOnlyIncludeCountFunc node then Some AffectRowSqlError else None)"

text \<open>\<^verbatim>\<open>strings.TrimRight(s, cutset)\<close>: \<open>s\<close> without its trailing characters that
  are in \<open>cutset\<close>.\<close>

definition TrimRight :: "string \<Rightarrow> string \<Rightarrow> string" where
  "TrimRight s cutset = rev (dropWhile (\<lambda>c. c \<in> set cutset) (rev s))"

text \<open>
  The type switch of \<^verbatim>\<open>GetAffectedRowNum\<close> (lines 39 to 75). It either returns at
  once (\<open>Inl\<close>: the value returned), or goes on with \<^verbatim>\<open>newNode\<close> (nil is
  \<open>None\<close>), \<^verbatim>\<open>cannotConvert\<close> and \<^verbatim>\<open>originSql\<close>, which the union branch
  reassigns.
\<close>

definition classify ::
    "estimator_env \<Rightarrow> string \<Rightarrow> stmt_node \<Rightarrow> (error + int64) + (select_stmt option \<times> bool \<times> string)" where
  "classify env originSql node =
     (case node of
        SelectStmt stmt \<Rightarrow>
          (let isGroupByAndHavingBothExist = (GroupBy stmt \<noteq> None \<and> Having stmt \<noteq> None);
               cannotConvert = (GroupBy stmt \<noteq> None \<or> isGroupByAndHavingBothExist \<or> Limit stmt \<noteq> None)
           in Inr (Some (getSelectNodeFromSelect stmt), cannotConvert, originSql))
      | InsertStmt stmt \<Rightarrow>
          (let isCommonInsert = (ins_Lists stmt \<noteq> None \<and> ins_Select stmt = None);
               isSelectInsert = (ins_Select stmt \<noteq> None \<and> ins_Lists stmt = None)
           in if isSelectInsert then
                (case ins_Select stmt of
                   Some (RsSelectStmt selectStmt) \<Rightarrow>
                     Inr (Some (getSelectNodeFromSelect selectStmt), False, originSql)
                 | Some (RsUnionStmt unionStmt) \<Rightarrow>
                     (case restoreToSqlWithFlag env unionStmt of
                        Inl err \<Rightarrow> Inl (Inl err)
                      | Inr sql \<Rightarrow> Inr (None, True, sql))
                 | _ \<Rightarrow> Inr (None, False, originSql))
              else if isCommonInsert then
                (case ins_Lists stmt of
                   Some tuples \<Rightarrow> Inl (Inr (word_of_nat (length tuples)))
                 | None \<Rightarrow> Inl (Inl ErrUnsupportedSqlType))
              else Inl (Inl ErrUnsupportedSqlType))
      | UpdateStmt stmt \<Rightarrow> Inr (Some (getSelectNodeFromUpdate stmt), False, originSql)
      | DeleteStmt stmt \<Rightarrow> Inr (Some (getSelectNodeFromDelete stmt), False, originSql)
      | _ \<Rightarrow> Inl (Inl ErrUnsupportedSqlType))"

text \<open>Lines 80 to 97: the text of the counting statement, \<^verbatim>\<open>affectedRowSql\<close>.\<close>

definition buildAffectedRowSql ::
    "estimator_env \<Rightarrow> select_stmt option \<Rightarrow> bool \<Rightarrow> string \<Rightarrow> error + string" where
  "buildAffectedRowSql env newNode cannotConvert originSql =
     (if cannotConvert then
        (let trimSuffix = TrimRight originSql '';''
         in Inr (''select count(*) from ('' @ trimSuffix @ '') as t''))
      else
        (case newNode of
           None \<Rightarrow> Inl (GetSelectNodeFailed originSql)
         | Some n \<Rightarrow> Restore env n))"

text \<open>
  Lines 124 to 132: one pass over the plan rows, from the initial values
  \<open>(False, 0, 0)\<close> of \<^verbatim>\<open>notUseIndex\<close>, \<^verbatim>\<open>affetcCount\<close> and
  \<^verbatim>\<open>estimatedRows\<close>. The additions are those of \<^verbatim>\<open>int64\<close>.
\<close>

fun scanPlan :: "explain_record list \<Rightarrow> bool \<times> int64 \<times> int64 \<Rightarrow> bool \<times> int64 \<times> int64" where
  "scanPlan [] acc = acc"
| "scanPlan (record # records) (notUseIndex, affetcCount, estimatedRows) =
     scanPlan records
       (notUseIndex \<or> rec_Type record = ExplainRecordAccessTypeAll,
        rec_Rows record,
        estimatedRows + rec_Rows record)"

text \<open>Lines 139 to 160: the count statement is run on the live connection.\<close>

definition queryCount :: "estimator_env \<Rightarrow> string \<Rightarrow> call list \<times> (error + int64)" where
  "queryCount env affectedRowSql =
     ([CallQuery affectedRowSql],
      (case QueryWithContext env affectedRowSql of
         Inl err \<Rightarrow> Inl (GetAffectedRowsFailed affectedRowSql err)
       | Inr row \<Rightarrow>
           if length row = 0 then Inr 0
           else if length row < 1 then Inl (RowCountLessThanOne affectedRowSql (length row))
           else (case hd row of
                   [] \<Rightarrow> Inl PanicIndexOutOfRange
                 | s # _ \<Rightarrow> ParseInt env s)))"

text \<open>Lines 113 to 137, then the live count.\<close>

definition explainOrCount :: "estimator_env \<Rightarrow> string \<Rightarrow> call list \<times> (error + int64)" where
  "explainOrCount env affectedRowSql =
     (case explainRecordFunc env affectedRowSql of
        Inl err \<Rightarrow> ([CallExplain affectedRowSql], Inl (GetExecutionPlanFailed affectedRowSql err))
      | Inr epRecords \<Rightarrow>
          (case scanPlan epRecords (False, 0, 0) of
             (notUseIndex, affetcCount, estimatedRows) \<Rightarrow>
               if notUseIndex \<or> 100000 <s estimatedRows
               then ([CallExplain affectedRowSql], Inr affetcCount)
               else (case queryCount env affectedRowSql of
                       (calls, r) \<Rightarrow> (CallExplain affectedRowSql # calls, r))))"

text \<open>Lines 99 to 104, then the rest: the check of the counting statement comes first.\<close>

definition checkedCount ::
    "estimator_env \<Rightarrow> string \<Rightarrow> string \<Rightarrow> call list \<times> (error + int64)" where
  "checkedCount env affectedRowSql originSql =
     (case checkSql env affectedRowSql of
        Some err \<Rightarrow> ([CallParse affectedRowSql], Inl (CheckSqlFailed affectedRowSql originSql err))
      | None \<Rightarrow>
          (case explainOrCount env affectedRowSql of
             (calls, r) \<Rightarrow> (CallParse affectedRowSql # calls, r)))"

text \<open>
  Lines 25 to 97: the statement is parsed, classified and rewritten. \<open>Inl\<close> is a
  return before the check of line 101; \<open>Inr\<close> carries \<^verbatim>\<open>affectedRowSql\<close> and
  \<^verbatim>\<open>originSql\<close> as they stand at line 99.
\<close>

definition rewriteToCount :: "estimator_env \<Rightarrow> string \<Rightarrow> (error + int64) + (string \<times> string)" where
  "rewriteToCount env originSql =
     (case ParseOneSql env originSql of
        Inl err \<Rightarrow> Inl (Inl err)
      | Inr node \<Rightarrow>
          (case classify env originSql node of
             Inl returned \<Rightarrow> Inl returned
           | Inr (newNode, cannotConvert, originSql') \<Rightarrow>
               (case buildAffectedRowSql env newNode cannotConvert originSql' of
                  Inl err \<Rightarrow> Inl (Inl err)
                | Inr affectedRowSql \<Rightarrow> Inr (affectedRowSql, originSql'))))"

definition GetAffectedRowNum :: "estimator_env \<Rightarrow> string \<Rightarrow> call list \<times> (error + int64)" where
  "GetAffectedRowNum env originSql =
     (case rewriteToCount env originSql of
        Inl returned \<Rightarrow> ([CallParse originSql], returned)
      | Inr (affectedRowSql, originSql') \<Rightarrow>
          (case checkedCount env affectedRowSql originSql' of
             (calls, r) \<Rightarrow> (CallParse originSql # calls, r)))"

subsection \<open>An example environment\<close>

text \<open>
  A small parser, printer, plan function and connection, on which the theorems below are
  instantiated. The printer writes a count statement from the clauses of the node. The
  text \<open>SELECT a FROM t LIMIT 1 -- x\<close> ends in a comment, which swallows the closing
  parenthesis of the derived table wrapped around it: the wrapped text does not parse.
\<close>

definition example_count_node :: stmt_node where
  "example_count_node = SelectStmt (newSelectWithCount\<lparr>From := Some ''t''\<rparr>)"

definition example_ParseOneSql :: "string \<Rightarrow> error + stmt_node" where
  "example_ParseOneSql sql =
     (if sql = ''INSERT INTO t(c) VALUES (1),(2),(3)'' then
        Inr (InsertStmt \<lparr>ins_Lists = Some [[''1''], [''2''], [''3'']], ins_Select = None\<rparr>)
      else if sql = ''UPDATE t SET x=1 LIMIT 5'' then
        Inr (UpdateStmt \<lparr>upd_TableRefs = Some ''t'', upd_Where = None, upd_Order = None,
                          upd_Limit = Some ''5''\<rparr>)
      else if sql = ''DELETE FROM t LIMIT 0'' then
        Inr (DeleteStmt \<lparr>del_TableRefs = Some ''t'', del_Where = None, del_Order = None,
                          del_Limit = Some ''0''\<rparr>)
      else if sql = ''SELECT * FROM t WHERE x=1'' then
        Inr (SelectStmt \<lparr>SQLCache = False, Fields = [OtherExpr ''*''], From = Some ''t'',
                          Where = Some ''x=1'', GroupBy = None, Having = None, OrderBy = None,
                          Limit = None\<rparr>)
      else if sql = ''SELECT * FROM t'' then
        Inr (SelectStmt \<lparr>SQLCache = False, Fields = [OtherExpr ''*''], From = Some ''t'',
                          Where = None, GroupBy = None, Having = None, OrderBy = None,
                          Limit = None\<rparr>)
      else if sql = ''SELECT a FROM t GROUP BY a;'' then
        Inr (SelectStmt \<lparr>SQLCache = False, Fields = [OtherExpr ''a''], From = Some ''t'',
                          Where = None, GroupBy = Some ''a'', Having = None, OrderBy = None,
                          Limit = None\<rparr>)
      else if sql = ''SELECT a FROM t LIMIT 1 -- x'' then
        Inr (SelectStmt \<lparr>SQLCache = False, Fields = [OtherExpr ''a''], From = Some ''t'',
                          Where = None, GroupBy = None, Having = None, OrderBy = None,
                          Limit = Some ''1''\<rparr>)
      else if sql = ''SELECT COUNT(1) FROM t WHERE x=1'' \<or> sql = ''SELECT COUNT(1) FROM t''
            \<or> sql = ''SELECT COUNT(1) FROM t LIMIT 5'' \<or> sql = ''SELECT COUNT(1) FROM t LIMIT 0''
            \<or> sql = ''select count(*) from (SELECT a FROM t GROUP BY a) as t'' then
        Inr example_count_node
      else Inl (CollaboratorError ''syntax error''))"

definition example_Restore :: "select_stmt \<Rightarrow> error + string" where
  "example_Restore n =
     Inr (''SELECT COUNT(1)''
          @ (case From n of None \<Rightarrow> [] | Some c \<Rightarrow> '' FROM '' @ c)
          @ (case Where n of None \<Rightarrow> [] | Some c \<Rightarrow> '' WHERE '' @ c)
          @ (case OrderBy n of None \<Rightarrow> [] | Some c \<Rightarrow> '' ORDER BY '' @ c)
          @ (case Limit n of None \<Rightarrow> [] | Some c \<Rightarrow> '' LIMIT '' @ c))"

definition example_explain :: "string \<Rightarrow> error + explain_record list" where
  "example_explain sql =
     (if sql = ''SELECT COUNT(1) FROM t'' then Inr [\<lparr>rec_Type = ''ALL'', rec_Rows = 1000\<rparr>]
      else if sql = ''SELECT COUNT(1) FROM t WHERE x=1'' then Inr [\<lparr>rec_Type = ''ref'', rec_Rows = 50\<rparr>]
      else Inr [])"

definition example_query :: "string \<Rightarrow> error + string list list" where
  "example_query sql =
     (if sql = ''SELECT COUNT(1) FROM t LIMIT 0'' then Inr [] else Inr [[''42'']])"

definition example_ParseInt :: "string \<Rightarrow> error + int64" where
  "example_ParseInt s = (if s = ''42'' then Inr 42 else Inl (CollaboratorError ''invalid syntax''))"

definition example_env :: estimator_env where
  "example_env =
     \<lparr>ParseOneSql = example_ParseOneSql, Restore = example_Restore,
      restoreToSqlWithFlag = (\<lambda>u. Inr u), explainRecordFunc = example_explain,
      QueryWithContext = example_query, ParseInt = example_ParseInt\<rparr>"

section \<open>Rules and findings\<close>

datatype rule_level = RuleLevelNotice | RuleLevelWarn | RuleLevelError

record rule =
  rule_Name :: string
  rule_Level :: rule_level

text \<open>
  The message of a finding is kept as its pattern with the arguments it is formatted
  with.
\<close>

datatype message =
    RuleMessage string
  | HandlerMessage string
  | CheckInvalidErrorFormat string
  | OptimizeAdvice string
  | GhostDryRunError int64 error
  | GhostDryRunNotice int64
  | OscCommandLine string

record finding =
  f_Level :: rule_level
  f_RuleName :: string
  f_Message :: message
  f_ErrorInfo :: "error option"
  f_IsAuditError :: bool

text \<open>
  Modelled from the spec: the type \<^verbatim>\<open>AuditResults\<close> of the driver interface, whose
  code is not among the sources. The spec: the result set of a statement is an ordered
  sequence of findings (severity, rule name, rendered message).
\<close>

type_synonym audit_results = "finding list"

text \<open>
  Modelled from the spec: \<^verbatim>\<open>NewAuditResults\<close>, whose code is not among the sources.
  The spec: the result set is created fresh, without findings, for each statement.
\<close>

definition NewAuditResults :: audit_results where
  "NewAuditResults = []"

text \<open>
  Modelled from the spec: the method \<^verbatim>\<open>Add\<close> of the result set, whose code is not
  among the sources. The spec: a finding is appended to the sequence, which keeps the
  order in which the findings were added.
\<close>

definition Add :: "audit_results \<Rightarrow> rule_level \<Rightarrow> string \<Rightarrow> message \<Rightarrow> audit_results" where
  "Add rs level ruleName msg =
     rs @ [\<lparr>f_Level = level, f_RuleName = ruleName, f_Message = msg, f_ErrorInfo = None,
            f_IsAuditError = False\<rparr>]"

text \<open>
  Modelled from the spec: the method \<^verbatim>\<open>AddResultWithError\<close> of the result set, whose
  code is not among the sources. The spec: the failure of a rule handler becomes a finding
  of its own, under the name of the rule; the finding is appended as \<^verbatim>\<open>Add\<close> appends,
  with the error and the flag it is given.
\<close>

definition AddResultWithError ::
    "audit_results \<Rightarrow> rule_level \<Rightarrow> string \<Rightarrow> error \<Rightarrow> bool \<Rightarrow> message \<Rightarrow> audit_results" where
  "AddResultWithError rs level ruleName errorInfo isAuditError msg =
     rs @ [\<lparr>f_Level = level, f_RuleName = ruleName, f_Message = msg,
            f_ErrorInfo = Some errorInfo, f_IsAuditError = isAuditError\<rparr>]"

text \<open>
  Modelled from the spec: the method \<^verbatim>\<open>HasResult\<close> of the result set, whose code is
  not among the sources. The spec: the flag "has result" is that the sequence is not
  empty.
\<close>

definition HasResult :: "audit_results \<Rightarrow> bool" where
  "HasResult rs = (rs \<noteq> [])"

text \<open>
  Modelled from the spec: \<^verbatim>\<open>rulepkg.AddResult\<close>, whose code is not among the
  sources. The spec: a rule handler appends findings to the shared result set, and each
  finding of a rule has the rule's configured severity and the rule's message.
\<close>

definition AddResult :: "audit_results \<Rightarrow> rule \<Rightarrow> string \<Rightarrow> audit_results" where
  "AddResult rs currentRule ruleName = Add rs (rule_Level currentRule) ruleName (RuleMessage ruleName)"

text \<open>The input of a rule handler: the session context, the rule, the result set of the
  statement and the statement node. A handler returns the context and the result set as
  it leaves them, and its error.\<close>

record 'c rule_handler_input =
  in_Ctx :: 'c
  in_Rule :: rule
  in_Res :: audit_results
  in_Node :: stmt_node

type_synonym 'c handler_func = "'c rule_handler_input \<Rightarrow> 'c \<times> audit_results \<times> error option"

section \<open>Rule SQLE00063 (sqle/driver/mysql/rule/ai/rule_00063.go)\<close>

definition SQLE00063 :: string where
  "SQLE00063 = ''SQLE00063''"

text \<open>
  \<^verbatim>\<open>strings.EqualFold\<close> of the Go library compares two UTF-8 strings rune by rune
  under Unicode simple case folding. Its parts are modelled as the library has them.
  A rune is a code point, a byte is a \<open>char\<close>.

  \<^verbatim>\<open>utf8.DecodeRuneInString\<close>: the first rune of a string of bytes and its width
  in bytes. The table \<open>first\<close> gives, for a leading byte of a sequence of two to
  four bytes, the width and the range accepted for the second byte; an invalid or short
  sequence decodes to \<^verbatim>\<open>RuneError\<close> with width 1.
\<close>

type_synonym rune = nat

definition RuneError :: rune where
  "RuneError = 65533"

definition RuneSelf :: rune where
  "RuneSelf = 128"

definition first :: "nat \<Rightarrow> (nat \<times> nat \<times> nat) option" where
  "first p0 =
     (if 194 \<le> p0 \<and> p0 \<le> 223 then Some (2, 128, 191)
      else if p0 = 224 then Some (3, 160, 191)
      else if 225 \<le> p0 \<and> p0 \<le> 236 then Some (3, 128, 191)
      else if p0 = 237 then Some (3, 128, 159)
      else if 238 \<le> p0 \<and> p0 \<le> 239 then Some (3, 128, 191)
      else if p0 = 240 then Some (4, 144, 191)
      else if 241 \<le> p0 \<and> p0 \<le> 243 then Some (4, 128, 191)
      else if p0 = 244 then Some (4, 128, 143)
      else None)"

definition DecodeRune :: "nat list \<Rightarrow> rune \<times> nat" where
  "DecodeRune p =
     (case p of
        [] \<Rightarrow> (RuneError, 0)
      | p0 # _ \<Rightarrow>
          if p0 < RuneSelf then (p0, 1)
          else
            (case first p0 of
               None \<Rightarrow> (RuneError, 1)
             | Some (sz, lo, hi) \<Rightarrow>
                 if length p < sz then (RuneError, 1)
                 else
                   (let b1 = p ! 1
                    in if b1 < lo \<or> hi < b1 then (RuneError, 1)
                       else if sz \<le> 2 then ((p0 mod 32) * 64 + b1 mod 64, 2)
                       else
                         (let b2 = p ! 2
                          in if b2 < 128 \<or> 191 < b2 then (RuneError, 1)
                             else if sz \<le> 3
                             then ((p0 mod 16) * 4096 + (b1 mod 64) * 64 + b2 mod 64, 3)
                             else
                               (let b3 = p ! 3
                                in if b3 < 128 \<or> 191 < b3 then (RuneError, 1)
                                   else ((p0 mod 8) * 262144 + (b1 mod 64) * 4096
                                           + (b2 mod 64) * 64 + b3 mod 64, 4))))))"

text \<open>The runes of a string, as \<^verbatim>\<open>for _, r := range s\<close> yields them.\<close>

fun runesFrom :: "nat \<Rightarrow> nat list \<Rightarrow> rune list" where
  "runesFrom skip [] = []"
| "runesFrom skip (b # bs) =
     (if 0 < skip then runesFrom (skip - 1) bs
      else (case DecodeRune (b # bs) of (r, width) \<Rightarrow> r # runesFrom (width - 1) bs))"

definition runes :: "string \<Rightarrow> rune list" where
  "runes s = runesFrom 0 (map of_char s)"

text \<open>
  The comparison of one rune of each string, as the loop of \<^verbatim>\<open>EqualFold\<close> makes
  it: equal runes match; otherwise the runes are put in order, and if both are ASCII
  they match when the smaller is a capital letter and the larger its small letter;
  otherwise \<^verbatim>\<open>unicode.SimpleFold\<close> is followed from the smaller rune, and they match
  when it reaches the larger. This last step rests on the case tables of the Unicode
  library, which are taken as the parameter \<open>folds\<close>: \<open>folds sr tr\<close> is the outcome of
  \<^verbatim>\<open>r := unicode.SimpleFold(sr); for r != sr && r < tr { r = unicode.SimpleFold(r) }; r == tr\<close>.
\<close>

definition equalFoldRune :: "(rune \<Rightarrow> rune \<Rightarrow> bool) \<Rightarrow> rune \<Rightarrow> rune \<Rightarrow> bool" where
  "equalFoldRune folds sr tr =
     (if tr = sr then True
      else
        (case (if tr < sr then (tr, sr) else (sr, tr)) of
           (sr, tr) \<Rightarrow>
             if tr < RuneSelf then (65 \<le> sr \<and> sr \<le> 90 \<and> tr = sr + 32)
             else folds sr tr))"

fun equalFoldRunes :: "(rune \<Rightarrow> rune \<Rightarrow> bool) \<Rightarrow> rune list \<Rightarrow> rune list \<Rightarrow> bool" where
  "equalFoldRunes folds [] [] = True"
| "equalFoldRunes folds [] (tr # t) = False"
| "equalFoldRunes folds (sr # s) [] = False"
| "equalFoldRunes folds (sr # s) (tr # t) =
     (if equalFoldRune folds sr tr then equalFoldRunes folds s t else False)"

definition EqualFold :: "(rune \<Rightarrow> rune \<Rightarrow> bool) \<Rightarrow> string \<Rightarrow> string \<Rightarrow> bool" where
  "EqualFold folds s t = equalFoldRunes folds (runes s) (runes t)"

text \<open>\<^verbatim>\<open>strings.Join(elems, sep)\<close>.\<close>

fun Join :: "string list \<Rightarrow> string \<Rightarrow> string" where
  "Join [] sep = []"
| "Join [x] sep = x"
| "Join (x # y # ys) sep = x @ sep @ Join (y # ys) sep"

text \<open>
  The collaborators of the rule, whose code is not among the sources:
  \<^verbatim>\<open>util.GetCreateTableStmt\<close>, which resolves the table in the session context, and
  \<^verbatim>\<open>util.GetTableConstraints\<close>, which selects the constraints of the given types;
  and the parameter \<open>folds\<close> of \<open>equalFoldRune\<close>, the Unicode case tables.
\<close>

record 'c rule63_env =
  GetCreateTableStmt :: "'c \<Rightarrow> table_name \<Rightarrow> 'c \<times> (error + create_table_stmt)"
  GetTableConstraints :: "constraint list \<Rightarrow> constraint_type list \<Rightarrow> constraint list"
  SimpleFoldReaches :: "rune \<Rightarrow> rune \<Rightarrow> bool"

text \<open>Lines 80 to 85, the helper of the rule.\<close>

definition isIndexNameViolate :: "'c rule63_env \<Rightarrow> string \<Rightarrow> string \<Rightarrow> string list \<Rightarrow> bool" where
  "isIndexNameViolate env indexName tableName cols =
     (if \<not> EqualFold (SimpleFoldReaches env) indexName
              (''IDX_UK_'' @ tableName @ ''_'' @ Join cols ''_'')
      then True else False)"

text \<open>
  Lines 118 to 130, the loop over the unique constraints of the table: \<open>True\<close> when
  it ends in the violation branch (which adds the result and returns), \<open>False\<close> when it
  runs to its end.
\<close>

fun renameViolates :: "'c rule63_env \<Rightarrow> string \<Rightarrow> string \<Rightarrow> string \<Rightarrow> constraint list \<Rightarrow> bool" where
  "renameViolates env oldIdxname newIdxname tableName [] = False"
| "renameViolates env oldIdxname newIdxname tableName (constraint # constraintUniqs) =
     (if EqualFold (SimpleFoldReaches env) oldIdxname oldIdxname then
        (let indexedCols = con_Keys constraint
         in if isIndexNameViolate env newIdxname tableName indexedCols then True
            else renameViolates env oldIdxname newIdxname tableName constraintUniqs)
      else renameViolates env oldIdxname newIdxname tableName constraintUniqs)"

text \<open>Lines 92 to 132, the loop over the specifications of an ALTER TABLE statement.\<close>

fun alterSpecs ::
    "'c rule63_env \<Rightarrow> rule \<Rightarrow> table_name \<Rightarrow> alter_table_spec list \<Rightarrow> 'c \<times> audit_results
       \<Rightarrow> 'c \<times> audit_results" where
  "alterSpecs env rule tbl [] (ctx, res) = (ctx, res)"
| "alterSpecs env rule tbl (spec # specs) (ctx, res) =
     (if spec_Tp spec = AlterTableAddConstraint then
        (case spec_Constraint spec of
           None \<Rightarrow> alterSpecs env rule tbl specs (ctx, res)
         | Some con \<Rightarrow>
             if con_Tp con = ConstraintUniq then
               (if isIndexNameViolate env (con_Name con) (tbl_Name tbl) (con_Keys con)
                then (ctx, AddResult res rule SQLE00063)
                else alterSpecs env rule tbl specs (ctx, res))
             else alterSpecs env rule tbl specs (ctx, res))
      else if spec_Tp spec = AlterTableRenameIndex then
        (case GetCreateTableStmt env ctx tbl of
           (ctx', Inl err) \<Rightarrow> (ctx', res)
         | (ctx', Inr createTable) \<Rightarrow>
             (let constraintUniqs = GetTableConstraints env (Constraints createTable) [ConstraintUniq]
              in if length constraintUniqs = 0 then (ctx', res)
                 else if renameViolates env (FromKey spec) (ToKey spec) (tbl_Name tbl) constraintUniqs
                 then (ctx', AddResult res rule SQLE00063)
                 else alterSpecs env rule tbl specs (ctx', res)))
      else alterSpecs env rule tbl specs (ctx, res))"

text \<open>Lines 152 to 162, the loop over the unique constraints of a CREATE TABLE statement.\<close>

fun createTableViolates :: "'c rule63_env \<Rightarrow> string \<Rightarrow> constraint list \<Rightarrow> bool" where
  "createTableViolates env tableName [] = False"
| "createTableViolates env tableName (constraint # constraints) =
     (if isIndexNameViolate env (con_Name constraint) tableName (con_Keys constraint) then True
      else createTableViolates env tableName constraints)"

definition RuleSQLE00063 :: "'c rule63_env \<Rightarrow> 'c handler_func" where
  "RuleSQLE00063 env input =
     (case in_Node input of
        AlterTableStmt stmt \<Rightarrow>
          (case alterSpecs env (in_Rule input) (alt_Table stmt) (Specs stmt) (in_Ctx input, in_Res input) of
             (ctx, res) \<Rightarrow> (ctx, res, None))
      | CreateIndexStmt stmt \<Rightarrow>
          (if cix_KeyType stmt = IndexKeyTypeUnique
              \<and> isIndexNameViolate env (IndexName stmt) (tbl_Name (cix_Table stmt))
                    (IndexPartSpecifications stmt)
           then (in_Ctx input, AddResult (in_Res input) (in_Rule input) SQLE00063, None)
           else (in_Ctx input, in_Res input, None))
      | CreateTableStmt stmt \<Rightarrow>
          (let constraints = GetTableConstraints env (Constraints stmt) [ConstraintUniq]
           in if createTableViolates env (tbl_Name (crt_Table stmt)) constraints
              then (in_Ctx input, AddResult (in_Res input) (in_Rule input) SQLE00063, None)
              else (in_Ctx input, in_Res input, None))
      | _ \<Rightarrow> (in_Ctx input, in_Res input, None))"

text \<open>
  An example. The table \<open>t\<close> has a unique constraint on column \<open>a\<close> and one on column
  \<open>b\<close>; the table \<open>s\<close> has one unique constraint, on the columns \<open>a\<close> and \<open>b\<close>; every
  other table has one unique constraint, on column \<open>k\<close>. Of the Unicode case tables the
  example has a single orbit beyond ASCII, that of \<open>K\<close> (75), \<open>k\<close> (107) and the
  Kelvin sign U+212A (8490, in UTF-8 the bytes E2 84 AA).
\<close>

definition example_constraints :: "string \<Rightarrow> constraint list" where
  "example_constraints tableName =
     (if tableName = ''t'' then
        [\<lparr>con_Tp = ConstraintUniq, con_Name = ''IDX_UK_t_a'', con_Keys = [''a'']\<rparr>,
         \<lparr>con_Tp = ConstraintUniq, con_Name = ''IDX_UK_t_b'', con_Keys = [''b'']\<rparr>]
      else if tableName = ''s'' then
        [\<lparr>con_Tp = ConstraintUniq, con_Name = ''IDX_UK_s_a_b'', con_Keys = [''a'', ''b'']\<rparr>]
      else
        [\<lparr>con_Tp = ConstraintUniq, con_Name = ''IDX_UK_r_k'', con_Keys = [''k'']\<rparr>])"

definition example_folds :: "rune \<Rightarrow> rune \<Rightarrow> bool" where
  "example_folds sr tr = (tr = 8490 \<and> (sr = 75 \<or> sr = 107))"

definition example_rule63_env :: "unit rule63_env" where
  "example_rule63_env =
     \<lparr>GetCreateTableStmt = (\<lambda>ctx tbl.
        (ctx, Inr \<lparr>crt_Table = tbl, Constraints = example_constraints (tbl_Name tbl)\<rparr>)),
      GetTableConstraints = (\<lambda>cs tps. filter (\<lambda>c. con_Tp c \<in> set tps) cs),
      SimpleFoldReaches = example_folds\<rparr>"

definition example_rename :: "string \<Rightarrow> string \<Rightarrow> string \<Rightarrow> unit rule_handler_input" where
  "example_rename tableName oldIdxname newIdxname =
     \<lparr>in_Ctx = (), in_Rule = \<lparr>rule_Name = ''SQLE00063'', rule_Level = RuleLevelWarn\<rparr>, in_Res = [],
      in_Node = AlterTableStmt
        \<lparr>alt_Table = \<lparr>tbl_Schema = [], tbl_Name = tableName\<rparr>,
         Specs = [\<lparr>spec_Tp = AlterTableRenameIndex, spec_Constraint = None,
                   FromKey = oldIdxname, ToKey = newIdxname\<rparr>]\<rparr>\<rparr>"

section \<open>The MySQL driver (audit pipeline)\<close>

text \<open>
  The configuration of the driver. The two parameters of the index advisor
  (\<^verbatim>\<open>compositeIndexMaxColumn\<close>, \<^verbatim>\<open>indexSelectivityMinValue\<close>) are only handed on
  to the advisor and are left out.
\<close>

record Config =
  DMLRollbackMaxRows :: int64
  DDLOSCMinSize :: int64
  DDLGhostMinSize :: int64
  optimizeIndexEnabled :: bool
  dmlExplainPreCheckEnable :: bool
  isExecutedSQL :: bool

text \<open>
  The calls the driver makes to the parser, to rule handlers and to the online-DDL tool
  (schema, statement, dry run or not) are logged in order, in the field \<open>called\<close> of
  the driver, which the code does not have. The session context is a state of any type
  \<open>'c\<close>; the collaborators that work on it take it and return it.
\<close>

datatype driver_call =
    ParseSqlCall string
  | HandlerCall string
  | GhostCall string string bool

record 'c MysqlDriverImpl =
  Ctx :: 'c
  cnf :: Config
  rules :: "rule list"
  result :: audit_results
  HasInvalidSql :: bool
  isOfflineAudit :: bool
  called :: "driver_call list"

record 'c rule_handler =
  Func :: "'c handler_func option"
  Message :: string
  IsAllowOfflineRule :: "stmt_node \<Rightarrow> bool"
  OnlyAuditNotExecutedSQL :: bool
  IsDisableExecutedSQLRule :: "stmt_node \<Rightarrow> bool"

text \<open>
  The collaborators of the driver, whose code is not among the sources: the parser
  (\<^verbatim>\<open>util.ParseSql\<close>), the validity checks and the plan check (methods of the driver
  that work on the session context and on the result set of the statement), the
  classifier of errors \<^verbatim>\<open>session.IsParseShowCreateTableContentErr\<close>, the registry of
  rule handlers, the index advisor \<^verbatim>\<open>optimize\<close> (the reasons of its advice), the
  session context's \<^verbatim>\<open>GetTableSize\<close> (see below for the type of the size),
  \<^verbatim>\<open>GetSchemaName\<close> and \<^verbatim>\<open>UpdateContext\<close>, the online-DDL
  tool (\<^verbatim>\<open>onlineddl.NewExecutor\<close> followed by \<^verbatim>\<open>Execute\<close>), the generator of
  the OSC command line, and the names of three configuration rules. Log lines are not
  modelled.
\<close>

record 'c audit_env =
  util_ParseSql :: "string \<Rightarrow> error + stmt_node list"
  CheckInvalid :: "'c \<Rightarrow> audit_results \<Rightarrow> stmt_node \<Rightarrow> 'c \<times> audit_results \<times> error option"
  CheckInvalidOffline :: "'c \<Rightarrow> audit_results \<Rightarrow> stmt_node \<Rightarrow> 'c \<times> audit_results \<times> error option"
  CheckExplain :: "'c \<Rightarrow> audit_results \<Rightarrow> stmt_node \<Rightarrow> 'c \<times> audit_results \<times> error option"
  IsParseShowCreateTableContentErr :: "error \<Rightarrow> bool"
  GetRuleHandlerFromAllRules :: "string \<Rightarrow> 'c rule_handler option"
  optimize :: "'c \<Rightarrow> stmt_node \<Rightarrow> 'c \<times> string list"
  GetTableSize :: "'c \<Rightarrow> table_name \<Rightarrow> 'c \<times> (error + rat)"
  GetSchemaName :: "'c \<Rightarrow> table_name \<Rightarrow> string"
  onlineddl_Execute :: "string \<Rightarrow> string \<Rightarrow> bool \<Rightarrow> error option"
  generateOSCCommandLine :: "'c \<Rightarrow> stmt_node \<Rightarrow> 'c \<times> string option \<times> error option"
  UpdateContext :: "'c \<Rightarrow> stmt_node \<Rightarrow> 'c"
  ConfigDDLGhostMinSize :: string
  ConfigDDLOSCMinSize :: string
  ConfigOptimizeIndexEnabled :: string
  int64OutOfRange :: "rat \<Rightarrow> int64"

text \<open>
  The size that \<^verbatim>\<open>GetTableSize\<close> returns is of a numeric type that line 240 converts
  with \<^verbatim>\<open>int64(tableSize)\<close>; the declaration is not among the sources. The size is
  taken as a rational number, which every finite floating-point number and every integer
  is. The conversion of a number to \<^verbatim>\<open>int64\<close> drops its fraction (it truncates
  toward zero); where the truncated number is not an \<^verbatim>\<open>int64\<close>, Go leaves the result
  to the implementation, and it is taken from the environment (\<open>int64OutOfRange\<close>).
\<close>

definition truncateSize :: "rat \<Rightarrow> int" where
  "truncateSize x = (if 0 \<le> x then \<lfloor>x\<rfloor> else \<lceil>x\<rceil>)"

definition int64_of_size :: "'c audit_env \<Rightarrow> rat \<Rightarrow> int64" where
  "int64_of_size env x =
     (let k = truncateSize x
      in if - (2 ^ 63) \<le> k \<and> k < 2 ^ 63 then word_of_int k else int64OutOfRange env x)"

definition IsOfflineAudit :: "'c MysqlDriverImpl \<Rightarrow> bool" where
  "IsOfflineAudit i = isOfflineAudit i"

definition IsExecutedSQL :: "'c MysqlDriverImpl \<Rightarrow> bool" where
  "IsExecutedSQL i = isExecutedSQL (cnf i)"

text \<open>Lines 532 to 546.\<close>

definition ParseSql ::
    "'c audit_env \<Rightarrow> 'c MysqlDriverImpl \<Rightarrow> string \<Rightarrow> 'c MysqlDriverImpl \<times> (error + stmt_node list)" where
  "ParseSql env i sql = (i\<lparr>called := called i @ [ParseSqlCall sql]\<rparr>, util_ParseSql env sql)"

text \<open>Lines 220 to 241. Indexing an empty list of nodes panics.\<close>

definition onlineddlWithGhost ::
    "'c audit_env \<Rightarrow> 'c MysqlDriverImpl \<Rightarrow> string \<Rightarrow> 'c MysqlDriverImpl \<times> (error + bool)" where
  "onlineddlWithGhost env i query =
     (if DDLGhostMinSize (cnf i) = - 1 then (i, Inr False)
      else
        (case ParseSql env i query of
           (i, Inl err) \<Rightarrow> (i, Inl (Wrap err ''parse SQL''))
         | (i, Inr node) \<Rightarrow>
             (case node of
                [] \<Rightarrow> (i, Inl PanicIndexOutOfRange)
              | AlterTableStmt stmt # _ \<Rightarrow>
                  (case GetTableSize env (Ctx i) (alt_Table stmt) of
                     (ctx, Inl err) \<Rightarrow> (i\<lparr>Ctx := ctx\<rparr>, Inl (Wrap err ''get table size''))
                   | (ctx, Inr tableSize) \<Rightarrow>
                       (i\<lparr>Ctx := ctx\<rparr>,
                        Inr (DDLGhostMinSize (cnf i) <s int64_of_size env tableSize)))
              | _ \<Rightarrow> (i, Inr False))))"

text \<open>Lines 145 to 182; \<open>None\<close> is the return without an error.\<close>

definition executeByGhost ::
    "'c audit_env \<Rightarrow> 'c MysqlDriverImpl \<Rightarrow> string \<Rightarrow> bool \<Rightarrow> 'c MysqlDriverImpl \<times> error option" where
  "executeByGhost env i query isDryRun =
     (case ParseSql env i query of
        (i, Inl err) \<Rightarrow> (i, Some (Wrap err ''parse SQL''))
      | (i, Inr node) \<Rightarrow>
          (case node of
             [] \<Rightarrow> (i, Some PanicIndexOutOfRange)
           | AlterTableStmt stmt # _ \<Rightarrow>
               (let schema = GetSchemaName env (Ctx i) (alt_Table stmt);
                    actionStr = (if isDryRun then ''dry-run'' else ''run'');
                    i = i\<lparr>called := called i @ [GhostCall schema query isDryRun]\<rparr>
                in case onlineddl_Execute env schema query isDryRun of
                     Some err \<Rightarrow> (i, Some (Wrap err (actionStr @ '' gh-ost'')))
                   | None \<Rightarrow> (i, None))
           | _ \<Rightarrow> (i, Some TypeAssertionFailed)))"

text \<open>Lines 346 to 359: the validity check; a legacy parse error of the table
  definition becomes a warning, any other error ends the audit.\<close>

definition checkInvalidStage ::
    "'c audit_env \<Rightarrow> 'c MysqlDriverImpl \<Rightarrow> stmt_node \<Rightarrow> 'c MysqlDriverImpl \<times> error option" where
  "checkInvalidStage env i node =
     (case (if IsOfflineAudit i \<or> IsExecutedSQL i
            then CheckInvalidOffline env (Ctx i) (result i) node
            else CheckInvalid env (Ctx i) (result i) node) of
        (ctx, res, err) \<Rightarrow>
          (let i = i\<lparr>Ctx := ctx, result := res\<rparr>
           in case err of
                None \<Rightarrow> (i, None)
              | Some e \<Rightarrow>
                  if IsParseShowCreateTableContentErr env e
                  then (i\<lparr>result := Add (result i) RuleLevelWarn ''pre_check_err''
                                       (CheckInvalidErrorFormat ''ParseDDLError'')\<rparr>, None)
                  else (i, Some e)))"

text \<open>Lines 361 to 365.\<close>

definition checkExplainStage ::
    "'c audit_env \<Rightarrow> 'c MysqlDriverImpl \<Rightarrow> stmt_node \<Rightarrow> 'c MysqlDriverImpl \<times> error option" where
  "checkExplainStage env i node =
     (if \<not> HasResult (result i) \<and> dmlExplainPreCheckEnable (cnf i) then
        (case CheckExplain env (Ctx i) (result i) node of
           (ctx, res, err) \<Rightarrow> (i\<lparr>Ctx := ctx, result := res\<rparr>, err))
      else (i, None))"

text \<open>Lines 367 to 370.\<close>

definition markInvalidSql :: "'c MysqlDriverImpl \<Rightarrow> 'c MysqlDriverImpl" where
  "markInvalidSql i = (if HasResult (result i) then i\<lparr>HasInvalidSql := True\<rparr> else i)"

text \<open>
  Lines 372 to 405, the loop over the rules of the driver, with the variable
  \<^verbatim>\<open>ghostRule\<close>: \<open>ruleLoopBody\<close> is one pass through the body of the loop, where
  \<^verbatim>\<open>continue\<close> ends the pass. A rule is skipped when it has no handler function, when
  the audit is offline and the handler does not allow it, or when the SQL is already
  executed and the handler is not for executed SQL. Otherwise its handler is called, and
  an error of the handler is added to the result set.
\<close>

definition ruleLoopBody ::
    "'c audit_env \<Rightarrow> stmt_node \<Rightarrow> rule \<Rightarrow> 'c MysqlDriverImpl \<times> rule option
       \<Rightarrow> 'c MysqlDriverImpl \<times> rule option" where
  "ruleLoopBody env node rule st =
     (case st of
        (i, ghostRule) \<Rightarrow>
          (let ghostRule = (if rule_Name rule = ConfigDDLGhostMinSize env then Some rule else ghostRule)
           in case GetRuleHandlerFromAllRules env (rule_Name rule) of
                None \<Rightarrow> (i, ghostRule)
              | Some handler \<Rightarrow>
                  (case Func handler of
                     None \<Rightarrow> (i, ghostRule)
                   | Some f \<Rightarrow>
                       if IsOfflineAudit i \<and> \<not> IsAllowOfflineRule handler node
                       then (i, ghostRule)
                       else if isExecutedSQL (cnf i)
                               \<and> (OnlyAuditNotExecutedSQL handler \<or> IsDisableExecutedSQLRule handler node)
                       then (i, ghostRule)
                       else
                         (case f \<lparr>in_Ctx = Ctx i, in_Rule = rule, in_Res = result i, in_Node = node\<rparr> of
                            (ctx, res, err) \<Rightarrow>
                              (let i = i\<lparr>Ctx := ctx, result := res,
                                          called := called i @ [HandlerCall (rule_Name rule)]\<rparr>
                               in case err of
                                    None \<Rightarrow> (i, ghostRule)
                                  | Some e \<Rightarrow>
                                      (i\<lparr>result := AddResultWithError (result i) (rule_Level rule)
                                                      (rule_Name rule) e True
                                                      (HandlerMessage (Message handler))\<rparr>,
                                       ghostRule))))))"

fun ruleLoop ::
    "'c audit_env \<Rightarrow> stmt_node \<Rightarrow> rule list \<Rightarrow> 'c MysqlDriverImpl \<times> rule option
       \<Rightarrow> 'c MysqlDriverImpl \<times> rule option" where
  "ruleLoop env node [] st = st"
| "ruleLoop env node (rule # rest) st = ruleLoop env node rest (ruleLoopBody env node rule st)"

text \<open>Lines 407 to 428.\<close>

definition optimizeStage :: "'c audit_env \<Rightarrow> 'c MysqlDriverImpl \<Rightarrow> stmt_node \<Rightarrow> 'c MysqlDriverImpl" where
  "optimizeStage env i node =
     (if optimizeIndexEnabled (cnf i) then
        (case optimize env (Ctx i) node of
           (ctx, results) \<Rightarrow>
             i\<lparr>Ctx := ctx,
               result := foldl (\<lambda>rs reason. Add rs RuleLevelNotice (ConfigOptimizeIndexEnabled env)
                                              (OptimizeAdvice reason))
                           (result i) results\<rparr>)
      else i)"

text \<open>Lines 430 to 442: the dry run of the online-DDL tool. Reading the name or the
  level of \<^verbatim>\<open>ghostRule\<close> while it is nil panics.\<close>

definition ghostStage ::
    "'c audit_env \<Rightarrow> 'c MysqlDriverImpl \<Rightarrow> string \<Rightarrow> rule option \<Rightarrow> 'c MysqlDriverImpl \<times> error option" where
  "ghostStage env i sql ghostRule =
     (case onlineddlWithGhost env i sql of
        (i, Inl err) \<Rightarrow> (i, Some (Wrap err ''check whether use ghost or not''))
      | (i, Inr useGhost) \<Rightarrow>
          if useGhost then
            (case executeByGhost env i sql True of
               (i, Some err) \<Rightarrow>
                 (case ghostRule of
                    None \<Rightarrow> (i, Some PanicNilDereference)
                  | Some g \<Rightarrow>
                      (i\<lparr>result := Add (result i) RuleLevelError (rule_Name g)
                                      (GhostDryRunError (DDLGhostMinSize (cnf i)) err)\<rparr>, None))
             | (i, None) \<Rightarrow>
                 (case ghostRule of
                    None \<Rightarrow> (i, Some PanicNilDereference)
                  | Some g \<Rightarrow>
                      (i\<lparr>result := Add (result i) (rule_Level g) (rule_Name g)
                                      (GhostDryRunNotice (DDLGhostMinSize (cnf i)))\<rparr>, None)))
          else (i, None))"

text \<open>Lines 444 to 453.\<close>

definition oscStage ::
    "'c audit_env \<Rightarrow> 'c MysqlDriverImpl \<Rightarrow> stmt_node \<Rightarrow> 'c MysqlDriverImpl \<times> error option" where
  "oscStage env i node =
     (case generateOSCCommandLine env (Ctx i) node of
        (ctx, oscCommandLine, err) \<Rightarrow>
          (let i = i\<lparr>Ctx := ctx\<rparr>;
               fatal = (case err of None \<Rightarrow> None
                        | Some e \<Rightarrow> if IsParseShowCreateTableContentErr env e then None else Some e)
           in case fatal of
                Some e \<Rightarrow> (i, Some e)
              | None \<Rightarrow>
                  (case oscCommandLine of
                     None \<Rightarrow> (i, None)
                   | Some line \<Rightarrow>
                       (i\<lparr>result := Add (result i) RuleLevelNotice (ConfigDDLOSCMinSize env)
                                       (OscCommandLine line)\<rparr>, None))))"

text \<open>Lines 455 to 457.\<close>

definition updateContextStage ::
    "'c audit_env \<Rightarrow> 'c MysqlDriverImpl \<Rightarrow> stmt_node \<Rightarrow> 'c MysqlDriverImpl" where
  "updateContextStage env i node =
     (if \<not> IsExecutedSQL i then i\<lparr>Ctx := UpdateContext env (Ctx i) node\<rparr> else i)"

text \<open>
  Lines 339 to 428 of \<^verbatim>\<open>audit\<close>: up to the index advisor. The value handed on is
  \<^verbatim>\<open>nodes[0]\<close> with \<^verbatim>\<open>ghostRule\<close>.
\<close>

definition auditRules ::
    "'c audit_env \<Rightarrow> 'c MysqlDriverImpl \<Rightarrow> string
       \<Rightarrow> 'c MysqlDriverImpl \<times> (error + stmt_node \<times> rule option)" where
  "auditRules env i sql =
     (let i = i\<lparr>result := NewAuditResults\<rparr>
      in case ParseSql env i sql of
           (i, Inl err) \<Rightarrow> (i, Inl err)
         | (i, Inr nodes) \<Rightarrow>
             (case nodes of
                [] \<Rightarrow> (i, Inl PanicIndexOutOfRange)
              | node # _ \<Rightarrow>
                  (case checkInvalidStage env i node of
                     (i, Some err) \<Rightarrow> (i, Inl err)
                   | (i, None) \<Rightarrow>
                       (case checkExplainStage env i node of
                          (i, Some err) \<Rightarrow> (i, Inl err)
                        | (i, None) \<Rightarrow>
                            (case ruleLoop env node (rules i) (markInvalidSql i, None) of
                               (i, ghostRule) \<Rightarrow>
                                 (optimizeStage env i node, Inr (node, ghostRule)))))))"

text \<open>Lines 430 to 459 of \<^verbatim>\<open>audit\<close>: the dry run (\<open>ghostStage\<close>), then, in
  \<open>finishAudit\<close>, the OSC command line, the update of the session context and the return
  of the result set.\<close>

definition finishAudit ::
    "'c audit_env \<Rightarrow> 'c MysqlDriverImpl \<Rightarrow> stmt_node
       \<Rightarrow> 'c MysqlDriverImpl \<times> (error + audit_results)" where
  "finishAudit env i node =
     (case oscStage env i node of
        (i, Some err) \<Rightarrow> (i, Inl err)
      | (i, None) \<Rightarrow>
          (let i = updateContextStage env i node in (i, Inr (result i))))"

definition auditDDL ::
    "'c audit_env \<Rightarrow> 'c MysqlDriverImpl \<Rightarrow> string \<Rightarrow> stmt_node \<Rightarrow> rule option
       \<Rightarrow> 'c MysqlDriverImpl \<times> (error + audit_results)" where
  "auditDDL env i sql node ghostRule =
     (case ghostStage env i sql ghostRule of
        (i, Some err) \<Rightarrow> (i, Inl err)
      | (i, None) \<Rightarrow> finishAudit env i node)"

definition audit ::
    "'c audit_env \<Rightarrow> 'c MysqlDriverImpl \<Rightarrow> string \<Rightarrow> 'c MysqlDriverImpl \<times> (error + audit_results)" where
  "audit env i sql =
     (case auditRules env i sql of
        (i, Inl err) \<Rightarrow> (i, Inl err)
      | (i, Inr (node, ghostRule)) \<Rightarrow> auditDDL env i sql node ghostRule)"

text \<open>
  Lines 321 to 336. \<^verbatim>\<open>Audit\<close> returns two values, the results and the error; a nil
  is \<open>None\<close>. The second loop is \<open>auditLoop\<close>, with the results appended so far.
\<close>

fun auditLoop ::
    "'c audit_env \<Rightarrow> 'c MysqlDriverImpl \<Rightarrow> string list \<Rightarrow> audit_results list
       \<Rightarrow> 'c MysqlDriverImpl \<times> (audit_results list option \<times> error option)" where
  "auditLoop env i [] results = (i, (Some results, None))"
| "auditLoop env i (sql # sqls) results =
     (case audit env i sql of
        (i, Inl err) \<Rightarrow> (i, (None, Some err))
      | (i, Inr r) \<Rightarrow> auditLoop env i sqls (results @ [r]))"

definition Audit ::
    "'c audit_env \<Rightarrow> 'c MysqlDriverImpl \<Rightarrow> string list
       \<Rightarrow> 'c MysqlDriverImpl \<times> (audit_results list option \<times> error option)" where
  "Audit env i sqls =
     (if list_ex (\<lambda>sql. sql = []) sqls then (i, (None, Some HasEmptySql))
      else auditLoop env i sqls [])"

subsection \<open>An example driver\<close>

text \<open>
  A driver with three rules: one whose handler fails, one whose handler adds a finding,
  and the configuration rule of the online-DDL threshold, which has no handler function.
  The threshold is 16. The tables \<open>t\<close> and \<open>u\<close> have size 17, the table \<open>v\<close> has
  size 16 and the table \<open>w\<close> has size 16.9; the dry run of the online-DDL tool fails on
  the statement for \<open>u\<close>.
\<close>

definition example_alter_stmt :: "string \<Rightarrow> alter_table_stmt" where
  "example_alter_stmt name =
     \<lparr>alt_Table = \<lparr>tbl_Schema = [], tbl_Name = name\<rparr>,
      Specs = [\<lparr>spec_Tp = AlterTableOtherType ''add column'', spec_Constraint = None,
                FromKey = [], ToKey = []\<rparr>]\<rparr>"

definition example_alter :: "string \<Rightarrow> stmt_node" where
  "example_alter name = AlterTableStmt (example_alter_stmt name)"

definition example_select :: stmt_node where
  "example_select =
     SelectStmt \<lparr>SQLCache = False, Fields = [ValueExpr 1], From = None, Where = None,
                 GroupBy = None, Having = None, OrderBy = None, Limit = None\<rparr>"

definition example_util_ParseSql :: "string \<Rightarrow> error + stmt_node list" where
  "example_util_ParseSql sql =
     (if sql = ''ALTER TABLE t ADD c INT'' then Inr [example_alter ''t'']
      else if sql = ''ALTER TABLE u ADD c INT'' then Inr [example_alter ''u'']
      else if sql = ''ALTER TABLE v ADD c INT'' then Inr [example_alter ''v'']
      else if sql = ''ALTER TABLE w ADD c INT'' then Inr [example_alter ''w'']
      else if sql = ''SELECT 1'' then Inr [example_select]
      else Inl (CollaboratorError ''syntax error''))"

definition example_handler :: "unit handler_func option \<Rightarrow> unit rule_handler" where
  "example_handler f =
     \<lparr>Func = f, Message = ''message'', IsAllowOfflineRule = (\<lambda>node. True),
      OnlyAuditNotExecutedSQL = False, IsDisableExecutedSQLRule = (\<lambda>node. False)\<rparr>"

definition example_handlers :: "string \<Rightarrow> unit rule_handler option" where
  "example_handlers name =
     (if name = ''failing_rule'' then
        Some (example_handler
          (Some (\<lambda>input. (in_Ctx input, in_Res input, Some (CollaboratorError ''handler failed'')))))
      else if name = ''naming_rule'' then
        Some (example_handler
          (Some (\<lambda>input. (in_Ctx input, AddResult (in_Res input) (in_Rule input) ''naming_rule'', None))))
      else if name = ''ddl_ghost_min_size'' then Some (example_handler None)
      else None)"

definition example_audit_env :: "unit audit_env" where
  "example_audit_env =
     \<lparr>util_ParseSql = example_util_ParseSql,
      CheckInvalid = (\<lambda>ctx res node. (ctx, res, None)),
      CheckInvalidOffline = (\<lambda>ctx res node. (ctx, res, None)),
      CheckExplain = (\<lambda>ctx res node. (ctx, res, None)),
      IsParseShowCreateTableContentErr = (\<lambda>err. False),
      GetRuleHandlerFromAllRules = example_handlers,
      optimize = (\<lambda>ctx node. (ctx, [])),
      GetTableSize = (\<lambda>ctx tbl.
         (ctx, Inr (if tbl_Name tbl = ''v'' then 16 else if tbl_Name tbl = ''w'' then 169 / 10 else 17))),
      GetSchemaName = (\<lambda>ctx tbl. ''db''),
      onlineddl_Execute = (\<lambda>schema query dryRun.
         if query = ''ALTER TABLE u ADD c INT'' then Some (CollaboratorError ''gh-ost failed'') else None),
      generateOSCCommandLine = (\<lambda>ctx node. (ctx, None, None)),
      UpdateContext = (\<lambda>ctx node. ctx),
      ConfigDDLGhostMinSize = ''ddl_ghost_min_size'',
      ConfigDDLOSCMinSize = ''ddl_osc_min_size'',
      ConfigOptimizeIndexEnabled = ''optimize_index_enabled'',
      int64OutOfRange = (\<lambda>x. - 9223372036854775808)\<rparr>"

definition example_rules :: "rule list" where
  "example_rules =
     [\<lparr>rule_Name = ''failing_rule'', rule_Level = RuleLevelWarn\<rparr>,
      \<lparr>rule_Name = ''naming_rule'', rule_Level = RuleLevelError\<rparr>,
      \<lparr>rule_Name = ''ddl_ghost_min_size'', rule_Level = RuleLevelNotice\<rparr>]"

definition example_driver :: "unit MysqlDriverImpl" where
  "example_driver =
     \<lparr>Ctx = (),
      cnf = \<lparr>DMLRollbackMaxRows = 0, DDLOSCMinSize = - 1, DDLGhostMinSize = 16,
             optimizeIndexEnabled = False, dmlExplainPreCheckEnable = False,
             isExecutedSQL = False\<rparr>,
      rules = example_rules, result = [], HasInvalidSql = False, isOfflineAudit = False,
      called = []\<rparr>"

text \<open>
  Three variants: the driver with no threshold set; the driver whose rules have been
  replaced (as \<^verbatim>\<open>SetRules\<close> does) by rules without the threshold rule, its
  threshold left as it was; and the environment in which the generation of the OSC
  command line fails.
\<close>

definition example_driver_unset :: "unit MysqlDriverImpl" where
  "example_driver_unset = example_driver\<lparr>cnf := (cnf example_driver)\<lparr>DDLGhostMinSize := - 1\<rparr>\<rparr>"

definition example_driver_no_ghost_rule :: "unit MysqlDriverImpl" where
  "example_driver_no_ghost_rule =
     example_driver\<lparr>rules := [\<lparr>rule_Name = ''failing_rule'', rule_Level = RuleLevelWarn\<rparr>,
                              \<lparr>rule_Name = ''naming_rule'', rule_Level = RuleLevelError\<rparr>]\<rparr>"

definition example_audit_env_osc_fails :: "unit audit_env" where
  "example_audit_env_osc_fails =
     example_audit_env
       \<lparr>generateOSCCommandLine := (\<lambda>ctx node. (ctx, None, Some (CollaboratorError ''osc failed'')))\<rparr>"

text \<open>
  A rule is dispatched by the loop when none of the three skip conditions of lines 379 to
  392 holds for it.
\<close>

definition ruleApplies :: "'c audit_env \<Rightarrow> 'c MysqlDriverImpl \<Rightarrow> stmt_node \<Rightarrow> rule \<Rightarrow> bool" where
  "ruleApplies env i node rule =
     (case GetRuleHandlerFromAllRules env (rule_Name rule) of
        None \<Rightarrow> False
      | Some handler \<Rightarrow>
          Func handler \<noteq> None
          \<and> \<not> (IsOfflineAudit i \<and> \<not> IsAllowOfflineRule handler node)
          \<and> \<not> (isExecutedSQL (cnf i)
                 \<and> (OnlyAuditNotExecutedSQL handler \<or> IsDisableExecutedSQLRule handler node)))"

text \<open>The finding that the OSC stage adds for a command line, if there is one.\<close>

definition oscFinding :: "'c audit_env \<Rightarrow> string option \<Rightarrow> audit_results" where
  "oscFinding env line =
     (case line of None \<Rightarrow> [] | Some l \<Rightarrow> Add [] RuleLevelNotice (ConfigDDLOSCMinSize env) (OscCommandLine l))"

definition example_ghost_rule :: rule where
  "example_ghost_rule = \<lparr>rule_Name = ''ddl_ghost_min_size'', rule_Level = RuleLevelNotice\<rparr>"

definition example_findings :: audit_results where
  "example_findings =
     [\<lparr>f_Level = RuleLevelWarn, f_RuleName = ''failing_rule'',
       f_Message = HandlerMessage ''message'',
       f_ErrorInfo = Some (CollaboratorError ''handler failed''), f_IsAuditError = True\<rparr>,
      \<lparr>f_Level = RuleLevelError, f_RuleName = ''naming_rule'',
       f_Message = RuleMessage ''naming_rule'', f_ErrorInfo = None, f_IsAuditError = False\<rparr>]"

definition example_after_rules :: "string \<Rightarrow> unit MysqlDriverImpl" where
  "example_after_rules sql =
     example_driver\<lparr>result := example_findings,
                    called := [ParseSqlCall sql, HandlerCall ''failing_rule'', HandlerCall ''naming_rule'']\<rparr>"

section \<open>Properties of the affected-rows estimator\<close>

subsection \<open>Auxiliary facts\<close>

lemma sint_of_length: "n < 2 ^ 63 \<Longrightarrow> sint (word_of_nat n :: int64) = int n"
  by (simp add: signed_of_nat signed_take_bit_int_eq_self)

lemma scanPlan_eq:
  "scanPlan records (notUseIndex, affetcCount, estimatedRows) =
     (notUseIndex \<or> (\<exists>r \<in> set records. rec_Type r = ExplainRecordAccessTypeAll),
      (if records = [] then affetcCount else rec_Rows (last records)),
      estimatedRows + sum_list (map rec_Rows records))"
  by (induction records arbitrary: notUseIndex affetcCount estimatedRows) (auto simp: add.assoc)

text \<open>
  The accumulator \<^verbatim>\<open>estimatedRows\<close> is an \<^verbatim>\<open>int64\<close>. It is the sum of the rows
  as integers whenever no row count is negative and that sum is below \<open>2 ^ 63\<close>.
\<close>

lemma sum_rows_exact:
  assumes "\<forall>r \<in> set records. 0 \<le> sint (rec_Rows r)"
      and "(\<Sum>r\<leftarrow>records. sint (rec_Rows r)) < 2 ^ 63"
  shows "sint (sum_list (map rec_Rows records)) = (\<Sum>r\<leftarrow>records. sint (rec_Rows r))"
  using assms
proof (induction records)
  case Nil
  then show ?case by simp
next
  case (Cons a records)
  have nonneg: "0 \<le> (\<Sum>r\<leftarrow>records. sint (rec_Rows r))"
    using Cons.prems(1) by (intro sum_list_nonneg) auto
  have a0: "0 \<le> sint (rec_Rows a)" using Cons.prems(1) by simp
  have ih: "sint (sum_list (map rec_Rows records)) = (\<Sum>r\<leftarrow>records. sint (rec_Rows r))"
    using Cons.IH Cons.prems a0 by simp
  have "sint (rec_Rows a + sum_list (map rec_Rows records))
          = signed_take_bit 63 (sint (rec_Rows a) + sint (sum_list (map rec_Rows records)))"
    by (simp add: sint_word_ariths)
  also have "\<dots> = sint (rec_Rows a) + (\<Sum>r\<leftarrow>records. sint (rec_Rows r))"
    using Cons.prems(2) a0 nonneg ih by (simp add: signed_take_bit_int_eq_self)
  finally show ?case by simp
qed

lemma getSelectNodeFromSelect_eq:
  "getSelectNodeFromSelect stmt =
     \<lparr>SQLCache = True, Fields = [AggregateFuncExpr AggFuncCount [ValueExpr 1]],
      From = From stmt, Where = Where stmt, GroupBy = None, Having = None,
      OrderBy = OrderBy stmt, Limit = Limit stmt\<rparr>"
  by (simp add: getSelectNodeFromSelect_def newSelectWithCount_def getCountFieldList_def Let_def)

lemma getSelectNodeFromUpdate_eq:
  "getSelectNodeFromUpdate stmt =
     \<lparr>SQLCache = True, Fields = [AggregateFuncExpr AggFuncCount [ValueExpr 1]],
      From = upd_TableRefs stmt, Where = upd_Where stmt, GroupBy = None, Having = None,
      OrderBy = upd_Order stmt, Limit = upd_Limit stmt\<rparr>"
  by (simp add: getSelectNodeFromUpdate_def newSelectWithCount_def getCountFieldList_def Let_def)

lemma getSelectNodeFromDelete_eq:
  "getSelectNodeFromDelete stmt =
     \<lparr>SQLCache = True, Fields = [AggregateFuncExpr AggFuncCount [ValueExpr 1]],
      From = del_TableRefs stmt, Where = del_Where stmt, GroupBy = None, Having = None,
      OrderBy = del_Order stmt, Limit = del_Limit stmt\<rparr>"
  by (simp add: getSelectNodeFromDelete_def newSelectWithCount_def getCountFieldList_def Let_def)

lemma checkSql_None_iff:
  "checkSql env q = None \<longleftrightarrow>
     (\<exists>s args. ParseOneSql env q = Inr (SelectStmt s) \<and> Fields s = [AggregateFuncExpr AggFuncCount args])"
  apply (simp add: checkSql_def split: sum.splits)
  apply (auto split: list.splits expr_node.splits elim!: IsSelectOnlyIncludeCountFunc.elims)
  done

lemma explainOrCount_calls:
  "explainOrCount env q = (calls, r) \<Longrightarrow>
     calls = [CallExplain q] \<or> calls = [CallExplain q, CallQuery q]"
  by (auto simp: explainOrCount_def queryCount_def split: sum.splits prod.splits if_splits)

lemma explainOrCount_eq:
  assumes "explainRecordFunc env q = Inr epRecords"
  shows "explainOrCount env q =
    (if (\<exists>r \<in> set epRecords. rec_Type r = ExplainRecordAccessTypeAll)
        \<or> 100000 <s sum_list (map rec_Rows epRecords)
     then ([CallExplain q], Inr (rec_Rows (last epRecords)))
     else (CallExplain q # fst (queryCount env q), snd (queryCount env q)))"
proof -
  have "epRecords \<noteq> []" if "(\<exists>r \<in> set epRecords. rec_Type r = ExplainRecordAccessTypeAll)
        \<or> 100000 <s sum_list (map rec_Rows epRecords)"
    using that by (auto simp: word_sless_alt)
  then show ?thesis using assms
    by (auto simp: explainOrCount_def scanPlan_eq split: prod.splits)
qed

subsection \<open>Runs of the example environment\<close>

lemma ex_rewrite_comment:
  "rewriteToCount example_env ''SELECT a FROM t LIMIT 1 -- x''
     = Inr (''select count(*) from (SELECT a FROM t LIMIT 1 -- x) as t'', ''SELECT a FROM t LIMIT 1 -- x'')"
  by (simp add: rewriteToCount_def example_env_def example_ParseOneSql_def classify_def
        buildAffectedRowSql_def TrimRight_def getSelectNodeFromSelect_eq)

lemma ex_check_comment:
  "checkSql example_env ''select count(*) from (SELECT a FROM t LIMIT 1 -- x) as t''
     = Some (CollaboratorError ''syntax error'')"
  by (simp add: checkSql_def example_env_def example_ParseOneSql_def)

lemma ex_rewrite_where:
  "rewriteToCount example_env ''SELECT * FROM t WHERE x=1''
     = Inr (''SELECT COUNT(1) FROM t WHERE x=1'', ''SELECT * FROM t WHERE x=1'')"
  by (simp add: rewriteToCount_def example_env_def example_ParseOneSql_def classify_def
        buildAffectedRowSql_def getSelectNodeFromSelect_eq example_Restore_def)

lemma ex_rewrite_full:
  "rewriteToCount example_env ''SELECT * FROM t''
     = Inr (''SELECT COUNT(1) FROM t'', ''SELECT * FROM t'')"
  by (simp add: rewriteToCount_def example_env_def example_ParseOneSql_def classify_def
        buildAffectedRowSql_def getSelectNodeFromSelect_eq example_Restore_def)

lemma ex_check_where: "checkSql example_env ''SELECT COUNT(1) FROM t WHERE x=1'' = None"
  by (simp add: checkSql_def example_env_def example_ParseOneSql_def example_count_node_def
        newSelectWithCount_def getCountFieldList_def)

lemma ex_check_full: "checkSql example_env ''SELECT COUNT(1) FROM t'' = None"
  by (simp add: checkSql_def example_env_def example_ParseOneSql_def example_count_node_def
        newSelectWithCount_def getCountFieldList_def)

lemma ex_explain_where:
  "explainRecordFunc example_env ''SELECT COUNT(1) FROM t WHERE x=1''
     = Inr [\<lparr>rec_Type = ''ref'', rec_Rows = 50\<rparr>]"
  by (simp add: example_env_def example_explain_def)

lemma ex_explain_full:
  "explainRecordFunc example_env ''SELECT COUNT(1) FROM t''
     = Inr [\<lparr>rec_Type = ''ALL'', rec_Rows = 1000\<rparr>]"
  by (simp add: example_env_def example_explain_def)

lemma ex_run_limit0:
  "GetAffectedRowNum example_env ''DELETE FROM t LIMIT 0'' =
     ([CallParse ''DELETE FROM t LIMIT 0'', CallParse ''SELECT COUNT(1) FROM t LIMIT 0'',
       CallExplain ''SELECT COUNT(1) FROM t LIMIT 0'', CallQuery ''SELECT COUNT(1) FROM t LIMIT 0''],
      snd (GetAffectedRowNum example_env ''DELETE FROM t LIMIT 0''))"
  by (simp add: GetAffectedRowNum_def rewriteToCount_def example_env_def example_ParseOneSql_def
        classify_def buildAffectedRowSql_def getSelectNodeFromDelete_eq example_Restore_def
        checkedCount_def checkSql_def example_count_node_def newSelectWithCount_def
        getCountFieldList_def explainOrCount_def example_explain_def queryCount_def
        example_query_def word_sless_alt)

subsection \<open>The check of the rewritten statement\<close>

text \<open>
  C1. Whenever the estimator has classified a statement and rewritten it into a counting
  statement (it did not return before line 99), the next call it makes is the parse of
  the rewritten text, by \<^verbatim>\<open>checkSql\<close>. If the check fails with an error, the run ends
  there: \<^verbatim>\<open>GetAffectedRowNum\<close> returns an error that wraps it, and the log holds the
  two parses only, so the rewritten text went neither to the plan function nor to the
  live connection. If the check passes, the rewritten text parsed to a select whose
  select list is exactly one count aggregate, and only after that parse do the calls to
  the plan function and to the connection come, both with the checked text.
\<close>

theorem rewritten_sql_checked_before_submission:
  assumes "rewriteToCount env originSql = Inr (affectedRowSql, originSql')"
  shows "(checkSql env affectedRowSql = Some err \<longrightarrow>
            GetAffectedRowNum env originSql =
               ([CallParse originSql, CallParse affectedRowSql],
                Inl (CheckSqlFailed affectedRowSql originSql' err)))
       \<and> (checkSql env affectedRowSql = None \<longrightarrow>
            (\<exists>s args calls r.
               ParseOneSql env affectedRowSql = Inr (SelectStmt s)
             \<and> Fields s = [AggregateFuncExpr AggFuncCount args]
             \<and> GetAffectedRowNum env originSql =
                  (CallParse originSql # CallParse affectedRowSql # calls, r)
             \<and> (calls = [CallExplain affectedRowSql]
                  \<or> calls = [CallExplain affectedRowSql, CallQuery affectedRowSql])))"
proof (intro conjI impI)
  assume "checkSql env affectedRowSql = Some err"
  with assms show "GetAffectedRowNum env originSql =
      ([CallParse originSql, CallParse affectedRowSql],
       Inl (CheckSqlFailed affectedRowSql originSql' err))"
    by (simp add: GetAffectedRowNum_def checkedCount_def)
next
  assume ok: "checkSql env affectedRowSql = None"
  then obtain s args where p: "ParseOneSql env affectedRowSql = Inr (SelectStmt s)"
      "Fields s = [AggregateFuncExpr AggFuncCount args]"
    using checkSql_None_iff by blast
  obtain calls r where e: "explainOrCount env affectedRowSql = (calls, r)"
    by (cases "explainOrCount env affectedRowSql")
  from assms ok e have "GetAffectedRowNum env originSql =
      (CallParse originSql # CallParse affectedRowSql # calls, r)"
    by (simp add: GetAffectedRowNum_def checkedCount_def)
  with p explainOrCount_calls [OF e]
  show "\<exists>s args calls r.
       ParseOneSql env affectedRowSql = Inr (SelectStmt s)
     \<and> Fields s = [AggregateFuncExpr AggFuncCount args]
     \<and> GetAffectedRowNum env originSql =
          (CallParse originSql # CallParse affectedRowSql # calls, r)
     \<and> (calls = [CallExplain affectedRowSql]
          \<or> calls = [CallExplain affectedRowSql, CallQuery affectedRowSql])"
    by blast
qed

theorem rewritten_sql_checked_witness:
  "GetAffectedRowNum example_env ''SELECT a FROM t LIMIT 1 -- x'' =
     ([CallParse ''SELECT a FROM t LIMIT 1 -- x'',
       CallParse ''select count(*) from (SELECT a FROM t LIMIT 1 -- x) as t''],
      Inl (CheckSqlFailed ''select count(*) from (SELECT a FROM t LIMIT 1 -- x) as t''
             ''SELECT a FROM t LIMIT 1 -- x'' (CollaboratorError ''syntax error'')))
   \<and> (\<exists>calls r.
         GetAffectedRowNum example_env ''SELECT * FROM t'' =
           (CallParse ''SELECT * FROM t'' # CallParse ''SELECT COUNT(1) FROM t'' # calls, r)
       \<and> (calls = [CallExplain ''SELECT COUNT(1) FROM t'']
            \<or> calls = [CallExplain ''SELECT COUNT(1) FROM t'', CallQuery ''SELECT COUNT(1) FROM t'']))"
proof
  show "GetAffectedRowNum example_env ''SELECT a FROM t LIMIT 1 -- x'' =
     ([CallParse ''SELECT a FROM t LIMIT 1 -- x'',
       CallParse ''select count(*) from (SELECT a FROM t LIMIT 1 -- x) as t''],
      Inl (CheckSqlFailed ''select count(*) from (SELECT a FROM t LIMIT 1 -- x) as t''
             ''SELECT a FROM t LIMIT 1 -- x'' (CollaboratorError ''syntax error'')))"
    using rewritten_sql_checked_before_submission
            [OF ex_rewrite_comment, of "CollaboratorError ''syntax error''"] ex_check_comment
    by simp
next
  show "\<exists>calls r.
         GetAffectedRowNum example_env ''SELECT * FROM t'' =
           (CallParse ''SELECT * FROM t'' # CallParse ''SELECT COUNT(1) FROM t'' # calls, r)
       \<and> (calls = [CallExplain ''SELECT COUNT(1) FROM t'']
            \<or> calls = [CallExplain ''SELECT COUNT(1) FROM t'', CallQuery ''SELECT COUNT(1) FROM t''])"
    using rewritten_sql_checked_before_submission [OF ex_rewrite_full] ex_check_full
    by blast
qed

subsection \<open>An insert of literal tuples\<close>

text \<open>
  C7. For an INSERT statement with a list of value tuples and no subquery, the estimator
  returns the number of the tuples at once. The only call of the run is the parse of the
  statement itself: nothing is rewritten or re-parsed, the plan function and the live
  connection are not called, and the result does not depend on them. The count is the
  length of the list as an \<^verbatim>\<open>int64\<close>, which is the length itself for every list
  shorter than \<open>2 ^ 63\<close>.
\<close>

theorem common_insert_returns_tuple_count:
  assumes "ParseOneSql env originSql = Inr (InsertStmt stmt)"
      and "ins_Lists stmt = Some tuples" and "ins_Select stmt = None"
  shows "GetAffectedRowNum env originSql = ([CallParse originSql], Inr (word_of_nat (length tuples)))
     \<and> (length tuples < 2 ^ 63 \<longrightarrow> sint (word_of_nat (length tuples) :: int64) = int (length tuples))"
  using assms by (simp add: GetAffectedRowNum_def rewriteToCount_def classify_def sint_of_length)

theorem common_insert_witness:
  "GetAffectedRowNum example_env ''INSERT INTO t(c) VALUES (1),(2),(3)''
     = ([CallParse ''INSERT INTO t(c) VALUES (1),(2),(3)''], Inr 3)"
  using common_insert_returns_tuple_count [of example_env "''INSERT INTO t(c) VALUES (1),(2),(3)''"
     "\<lparr>ins_Lists = Some [[''1''], [''2''], [''3'']], ins_Select = None\<rparr>" "[[''1''], [''2''], [''3'']]"]
  by (simp add: example_env_def example_ParseOneSql_def)

subsection \<open>The plan decides whether the count is run\<close>

text \<open>
  C4. Once the rewritten counting statement has passed the check and its plan has been
  obtained: if some plan row has the access type \<open>ALL\<close> (a full table scan), or the sum
  of the rows of all plan rows exceeds 100000, then \<^verbatim>\<open>GetAffectedRowNum\<close> returns the
  estimate of the plan, which is the row count of its last row, and its calls end with
  the plan function: the counting statement is not run on the live connection.
  Otherwise the run goes on with one query of the counting statement on the live
  connection, and from a result with a first row and a first column it returns that
  column read as an integer. The sum is the \<^verbatim>\<open>int64\<close> accumulator
  \<^verbatim>\<open>estimatedRows\<close> of the code, compared as a signed number; by
  \<open>sum_rows_exact\<close> it is the sum of the row counts wherever these are not negative
  and their sum is below \<open>2 ^ 63\<close>.
\<close>

theorem plan_decides_live_count:
  assumes "rewriteToCount env originSql = Inr (affectedRowSql, originSql')"
      and "checkSql env affectedRowSql = None"
      and "explainRecordFunc env affectedRowSql = Inr epRecords"
  shows "((\<exists>r \<in> set epRecords. rec_Type r = ExplainRecordAccessTypeAll)
            \<or> 100000 <s sum_list (map rec_Rows epRecords) \<longrightarrow>
          GetAffectedRowNum env originSql =
            ([CallParse originSql, CallParse affectedRowSql, CallExplain affectedRowSql],
             Inr (rec_Rows (last epRecords))))
       \<and> (\<not> ((\<exists>r \<in> set epRecords. rec_Type r = ExplainRecordAccessTypeAll)
            \<or> 100000 <s sum_list (map rec_Rows epRecords)) \<longrightarrow>
          fst (GetAffectedRowNum env originSql) =
            [CallParse originSql, CallParse affectedRowSql, CallExplain affectedRowSql,
             CallQuery affectedRowSql]
          \<and> (QueryWithContext env affectedRowSql = Inr ((s # cols) # rows) \<longrightarrow>
               snd (GetAffectedRowNum env originSql) = ParseInt env s))"
  using assms
  by (simp add: GetAffectedRowNum_def checkedCount_def explainOrCount_eq queryCount_def
        split: prod.splits)

theorem plan_decides_live_count_witness:
  "GetAffectedRowNum example_env ''SELECT * FROM t'' =
     ([CallParse ''SELECT * FROM t'', CallParse ''SELECT COUNT(1) FROM t'',
       CallExplain ''SELECT COUNT(1) FROM t''], Inr 1000)
   \<and> fst (GetAffectedRowNum example_env ''SELECT * FROM t WHERE x=1'') =
     [CallParse ''SELECT * FROM t WHERE x=1'', CallParse ''SELECT COUNT(1) FROM t WHERE x=1'',
       CallExplain ''SELECT COUNT(1) FROM t WHERE x=1'', CallQuery ''SELECT COUNT(1) FROM t WHERE x=1'']
   \<and> snd (GetAffectedRowNum example_env ''SELECT * FROM t WHERE x=1'') = Inr 42"
proof -
  have q: "QueryWithContext example_env ''SELECT COUNT(1) FROM t WHERE x=1'' = Inr ((''42'' # []) # [])"
    by (simp add: example_env_def example_query_def)
  have p: "ParseInt example_env ''42'' = Inr 42"
    by (simp add: example_env_def example_ParseInt_def)
  show ?thesis
    using plan_decides_live_count [OF ex_rewrite_full ex_check_full ex_explain_full]
      plan_decides_live_count [OF ex_rewrite_where ex_check_where ex_explain_where,
        of "''42''" "[]" "[]"] q p
    by (simp add: ExplainRecordAccessTypeAll_def)
qed

subsection \<open>An empty result of the live count\<close>

text \<open>
  C8. If a run of \<^verbatim>\<open>GetAffectedRowNum\<close> has queried the live connection with the
  counting statement, and the connection answers that statement with an empty result set
  (no error, no rows), then the run returns the count zero and no error.
\<close>

theorem empty_live_result_is_zero:
  assumes "GetAffectedRowNum env originSql = (calls, r)"
      and "CallQuery affectedRowSql \<in> set calls"
      and "QueryWithContext env affectedRowSql = Inr []"
  shows "r = Inr 0"
proof (cases "rewriteToCount env originSql")
  case (Inl a)
  with assms show ?thesis by (auto simp: GetAffectedRowNum_def)
next
  case (Inr b)
  obtain q o' where b: "b = (q, o')" by (cases b)
  show ?thesis
  proof (cases "checkSql env q")
    case (Some e)
    with assms Inr b show ?thesis by (auto simp: GetAffectedRowNum_def checkedCount_def)
  next
    case None
    with assms Inr b show ?thesis
      by (auto simp: GetAffectedRowNum_def checkedCount_def explainOrCount_def queryCount_def
            split: sum.splits prod.splits if_splits)
  qed
qed

theorem empty_live_result_witness:
  "snd (GetAffectedRowNum example_env ''DELETE FROM t LIMIT 0'') = Inr 0"
proof -
  have q: "QueryWithContext example_env ''SELECT COUNT(1) FROM t LIMIT 0'' = Inr []"
    by (simp add: example_env_def example_query_def)
  show ?thesis
    using empty_live_result_is_zero [OF ex_run_limit0 _ q] by simp
qed

subsection \<open>The rewrite policy\<close>

text \<open>
  C3, as stated, fails on an UPDATE with a LIMIT: the statement is not
  wrapped as a derived table. Its counting statement is the restored text of a fresh
  count select that carries the LIMIT.
\<close>

theorem update_with_limit_not_wrapped:
  "ParseOneSql example_env ''UPDATE t SET x=1 LIMIT 5'' =
      Inr (UpdateStmt \<lparr>upd_TableRefs = Some ''t'', upd_Where = None, upd_Order = None,
                        upd_Limit = Some ''5''\<rparr>)
   \<and> rewriteToCount example_env ''UPDATE t SET x=1 LIMIT 5'' =
      Inr (''SELECT COUNT(1) FROM t LIMIT 5'', ''UPDATE t SET x=1 LIMIT 5'')
   \<and> rewriteToCount example_env ''UPDATE t SET x=1 LIMIT 5'' \<noteq>
      Inr (''select count(*) from (UPDATE t SET x=1 LIMIT 5) as t'', ''UPDATE t SET x=1 LIMIT 5'')"
  by (simp add: rewriteToCount_def example_env_def example_ParseOneSql_def classify_def
        buildAffectedRowSql_def getSelectNodeFromUpdate_eq example_Restore_def)

text \<open>
  C3, amended. A SELECT statement with a GROUP BY clause (with or without HAVING) or a
  LIMIT clause is rewritten to \<open>select count(*) from (<original>) as t\<close>, where
  \<open><original>\<close> is the whole text of the statement without its trailing semicolons. A
  SELECT statement with neither clause, and every UPDATE and every DELETE statement,
  with or without a LIMIT, is rewritten to the restored text of a freshly built select
  whose select list is \<open>COUNT(1)\<close> and whose FROM, WHERE, ORDER BY and LIMIT clauses are
  those of the original, all other clauses being empty (an error of the restoring
  printer is returned as it is).
\<close>

theorem rewrite_policy:
  assumes "ParseOneSql env originSql = Inr node"
  shows "(node = SelectStmt s \<and> (GroupBy s \<noteq> None \<or> Limit s \<noteq> None) \<longrightarrow>
            rewriteToCount env originSql =
              Inr (''select count(*) from ('' @ TrimRight originSql '';'' @ '') as t'', originSql))
       \<and> (node = SelectStmt s \<and> GroupBy s = None \<and> Limit s = None \<longrightarrow>
            rewriteToCount env originSql =
              map_sum Inl (\<lambda>q. (q, originSql))
                (Restore env
                  \<lparr>SQLCache = True, Fields = [AggregateFuncExpr AggFuncCount [ValueExpr 1]],
                   From = From s, Where = Where s, GroupBy = None, Having = None,
                   OrderBy = OrderBy s, Limit = None\<rparr>))
       \<and> (node = UpdateStmt u \<longrightarrow>
            rewriteToCount env originSql =
              map_sum Inl (\<lambda>q. (q, originSql))
                (Restore env
                  \<lparr>SQLCache = True, Fields = [AggregateFuncExpr AggFuncCount [ValueExpr 1]],
                   From = upd_TableRefs u, Where = upd_Where u, GroupBy = None, Having = None,
                   OrderBy = upd_Order u, Limit = upd_Limit u\<rparr>))
       \<and> (node = DeleteStmt d \<longrightarrow>
            rewriteToCount env originSql =
              map_sum Inl (\<lambda>q. (q, originSql))
                (Restore env
                  \<lparr>SQLCache = True, Fields = [AggregateFuncExpr AggFuncCount [ValueExpr 1]],
                   From = del_TableRefs d, Where = del_Where d, GroupBy = None, Having = None,
                   OrderBy = del_Order d, Limit = del_Limit d\<rparr>))"
  using assms
  by (auto simp: rewriteToCount_def classify_def buildAffectedRowSql_def
        getSelectNodeFromSelect_eq getSelectNodeFromUpdate_eq getSelectNodeFromDelete_eq
        split: sum.splits)

theorem rewrite_policy_witness:
  "rewriteToCount example_env ''SELECT a FROM t GROUP BY a;'' =
     Inr (''select count(*) from (SELECT a FROM t GROUP BY a) as t'', ''SELECT a FROM t GROUP BY a;'')
   \<and> rewriteToCount example_env ''SELECT * FROM t WHERE x=1'' =
     Inr (''SELECT COUNT(1) FROM t WHERE x=1'', ''SELECT * FROM t WHERE x=1'')
   \<and> rewriteToCount example_env ''UPDATE t SET x=1 LIMIT 5'' =
     Inr (''SELECT COUNT(1) FROM t LIMIT 5'', ''UPDATE t SET x=1 LIMIT 5'')
   \<and> rewriteToCount example_env ''DELETE FROM t LIMIT 0'' =
     Inr (''SELECT COUNT(1) FROM t LIMIT 0'', ''DELETE FROM t LIMIT 0'')"
proof -
  have p1: "ParseOneSql example_env ''SELECT a FROM t GROUP BY a;'' =
      Inr (SelectStmt \<lparr>SQLCache = False, Fields = [OtherExpr ''a''], From = Some ''t'',
             Where = None, GroupBy = Some ''a'', Having = None, OrderBy = None, Limit = None\<rparr>)"
    by (simp add: example_env_def example_ParseOneSql_def)
  have p2: "ParseOneSql example_env ''SELECT * FROM t WHERE x=1'' =
      Inr (SelectStmt \<lparr>SQLCache = False, Fields = [OtherExpr ''*''], From = Some ''t'',
             Where = Some ''x=1'', GroupBy = None, Having = None, OrderBy = None, Limit = None\<rparr>)"
    by (simp add: example_env_def example_ParseOneSql_def)
  have p3: "ParseOneSql example_env ''UPDATE t SET x=1 LIMIT 5'' =
      Inr (UpdateStmt \<lparr>upd_TableRefs = Some ''t'', upd_Where = None, upd_Order = None,
             upd_Limit = Some ''5''\<rparr>)"
    by (simp add: example_env_def example_ParseOneSql_def)
  have p4: "ParseOneSql example_env ''DELETE FROM t LIMIT 0'' =
      Inr (DeleteStmt \<lparr>del_TableRefs = Some ''t'', del_Where = None, del_Order = None,
             del_Limit = Some ''0''\<rparr>)"
    by (simp add: example_env_def example_ParseOneSql_def)
  have r: "Restore example_env = example_Restore"
    by (simp add: example_env_def)
  show ?thesis
    using rewrite_policy [OF p1, of "\<lparr>SQLCache = False, Fields = [OtherExpr ''a''], From = Some ''t'',
             Where = None, GroupBy = Some ''a'', Having = None, OrderBy = None, Limit = None\<rparr>"]
      rewrite_policy [OF p2, of "\<lparr>SQLCache = False, Fields = [OtherExpr ''*''], From = Some ''t'',
             Where = Some ''x=1'', GroupBy = None, Having = None, OrderBy = None, Limit = None\<rparr>"]
      rewrite_policy [OF p3, of _ "\<lparr>upd_TableRefs = Some ''t'', upd_Where = None, upd_Order = None,
             upd_Limit = Some ''5''\<rparr>"]
      rewrite_policy [OF p4, of _ _ "\<lparr>del_TableRefs = Some ''t'', del_Where = None, del_Order = None,
             del_Limit = Some ''0''\<rparr>"]
    by (simp add: r example_Restore_def TrimRight_def)
qed

section \<open>Properties of rule SQLE00063\<close>

lemma equalFoldRunes_refl: "equalFoldRunes folds rs rs"
  by (induction rs) (simp_all add: equalFoldRune_def)

lemma EqualFold_refl: "EqualFold folds s s"
  by (simp add: EqualFold_def equalFoldRunes_refl)

lemma renameViolates_iff:
  "renameViolates env oldIdxname newIdxname tableName constraintUniqs \<longleftrightarrow>
     (\<exists>c \<in> set constraintUniqs.
        \<not> EqualFold (SimpleFoldReaches env) newIdxname
             (''IDX_UK_'' @ tableName @ ''_'' @ Join (con_Keys c) ''_''))"
  by (induction constraintUniqs) (auto simp: EqualFold_refl isIndexNameViolate_def)

text \<open>
  C9. In the RENAME INDEX branch the guard of line 119 compares the prior name of the
  index with itself under \<^verbatim>\<open>strings.EqualFold\<close>, and so holds for every name, whatever
  the Unicode case tables are. Hence, when the table resolves and has at least one
  unique constraint, the rule adds its finding (and returns) exactly when, for some
  unique constraint of the table, the new index name is not equal under case folding to
  \<open>IDX_UK_<table>_<columns of that constraint joined by _>\<close>; otherwise it goes on with
  the next specification. The new name is thus checked against the columns of every
  unique constraint, whatever the prior name is, also when it names none of them. The
  ALTER TABLE statement with the one specification is the case in which nothing else
  decides the outcome of the rule.
\<close>

theorem rename_index_checked_against_every_unique_constraint:
  assumes "GetCreateTableStmt env ctx tbl = (ctx', Inr createTable)"
      and "GetTableConstraints env (Constraints createTable) [ConstraintUniq] = constraintUniqs"
      and "constraintUniqs \<noteq> []"
  shows "EqualFold (SimpleFoldReaches env) oldIdxname oldIdxname
     \<and> alterSpecs env rule tbl
         (\<lparr>spec_Tp = AlterTableRenameIndex, spec_Constraint = con,
           FromKey = oldIdxname, ToKey = newIdxname\<rparr> # specs) (ctx, res)
       = (if \<exists>c \<in> set constraintUniqs.
               \<not> EqualFold (SimpleFoldReaches env) newIdxname
                    (''IDX_UK_'' @ tbl_Name tbl @ ''_'' @ Join (con_Keys c) ''_'')
          then (ctx', AddResult res rule SQLE00063)
          else alterSpecs env rule tbl specs (ctx', res))
     \<and> RuleSQLE00063 env
         \<lparr>in_Ctx = ctx, in_Rule = rule, in_Res = res,
          in_Node = AlterTableStmt
            \<lparr>alt_Table = tbl,
             Specs = [\<lparr>spec_Tp = AlterTableRenameIndex, spec_Constraint = con,
                       FromKey = oldIdxname, ToKey = newIdxname\<rparr>]\<rparr>\<rparr>
       = (ctx',
          (if \<exists>c \<in> set constraintUniqs.
                \<not> EqualFold (SimpleFoldReaches env) newIdxname
                     (''IDX_UK_'' @ tbl_Name tbl @ ''_'' @ Join (con_Keys c) ''_'')
           then AddResult res rule SQLE00063 else res),
          None)"
  using assms
  by (simp add: RuleSQLE00063_def renameViolates_iff EqualFold_refl)

text \<open>
  On the example tables. In \<open>t\<close> the index on column \<open>b\<close> is renamed to the name the
  rule expects for it; the finding is added all the same, since that name is not the one
  expected for the columns of the other unique constraint. In \<open>s\<close> and in \<open>r\<close>, which
  have one unique constraint each, the new name is the expected one up to the case of
  its letters (in \<open>r\<close> with the Kelvin sign for the letter \<open>k\<close>), and no finding is
  added.
\<close>

lemma ex_fold:
  "EqualFold example_folds ''IDX_UK_t_b'' ''IDX_UK_t_a'' = False"
  "EqualFold example_folds ''IDX_UK_t_b'' ''IDX_UK_t_b'' = True"
  "EqualFold example_folds ''idx_uk_S_A_B'' ''IDX_UK_s_a_b'' = True"
  "EqualFold example_folds (''idx_uk_r_'' @ [CHR 0xE2, CHR 0x84, CHR 0xAA]) ''IDX_UK_r_k'' = True"
  by code_simp+

lemma ex_create_table:
  "GetCreateTableStmt example_rule63_env () \<lparr>tbl_Schema = [], tbl_Name = n\<rparr>
     = ((), Inr \<lparr>crt_Table = \<lparr>tbl_Schema = [], tbl_Name = n\<rparr>, Constraints = example_constraints n\<rparr>)"
  by (simp add: example_rule63_env_def)

lemma ex_uniqs:
  "GetTableConstraints example_rule63_env
     (Constraints \<lparr>crt_Table = \<lparr>tbl_Schema = [], tbl_Name = n\<rparr>, Constraints = example_constraints n\<rparr>)
     [ConstraintUniq] = example_constraints n"
  by (simp add: example_rule63_env_def example_constraints_def)

lemma ex_uniqs_nonempty: "example_constraints n \<noteq> []"
  by (simp add: example_constraints_def)

theorem rename_index_witness:
  "RuleSQLE00063 example_rule63_env (example_rename ''t'' ''old_b'' ''IDX_UK_t_b'')
     = ((), [\<lparr>f_Level = RuleLevelWarn, f_RuleName = ''SQLE00063'',
              f_Message = RuleMessage ''SQLE00063'', f_ErrorInfo = None, f_IsAuditError = False\<rparr>],
        None)
   \<and> RuleSQLE00063 example_rule63_env (example_rename ''s'' ''old'' ''idx_uk_S_A_B'') = ((), [], None)
   \<and> RuleSQLE00063 example_rule63_env
        (example_rename ''r'' ''old'' (''idx_uk_r_'' @ [CHR 0xE2, CHR 0x84, CHR 0xAA])) = ((), [], None)"
proof -
  have f: "SimpleFoldReaches example_rule63_env = example_folds"
    by (simp add: example_rule63_env_def)
  have c: "example_constraints ''t'' =
        [\<lparr>con_Tp = ConstraintUniq, con_Name = ''IDX_UK_t_a'', con_Keys = [''a'']\<rparr>,
         \<lparr>con_Tp = ConstraintUniq, con_Name = ''IDX_UK_t_b'', con_Keys = [''b'']\<rparr>]"
      "example_constraints ''s'' =
        [\<lparr>con_Tp = ConstraintUniq, con_Name = ''IDX_UK_s_a_b'', con_Keys = [''a'', ''b'']\<rparr>]"
      "example_constraints ''r'' =
        [\<lparr>con_Tp = ConstraintUniq, con_Name = ''IDX_UK_r_k'', con_Keys = [''k'']\<rparr>]"
    by (simp_all add: example_constraints_def)
  show ?thesis
    unfolding example_rename_def
    using rename_index_checked_against_every_unique_constraint
            [OF ex_create_table [of "''t''"] ex_uniqs [of "''t''"] ex_uniqs_nonempty [of "''t''"],
             of "''old_b''" "\<lparr>rule_Name = ''SQLE00063'', rule_Level = RuleLevelWarn\<rparr>" None
                "''IDX_UK_t_b''" "[]" "[]"]
          rename_index_checked_against_every_unique_constraint
            [OF ex_create_table [of "''s''"] ex_uniqs [of "''s''"] ex_uniqs_nonempty [of "''s''"],
             of "''old''" "\<lparr>rule_Name = ''SQLE00063'', rule_Level = RuleLevelWarn\<rparr>" None
                "''idx_uk_S_A_B''" "[]" "[]"]
          rename_index_checked_against_every_unique_constraint
            [OF ex_create_table [of "''r''"] ex_uniqs [of "''r''"] ex_uniqs_nonempty [of "''r''"],
             of "''old''" "\<lparr>rule_Name = ''SQLE00063'', rule_Level = RuleLevelWarn\<rparr>" None
                "''idx_uk_r_'' @ [CHR 0xE2, CHR 0x84, CHR 0xAA]" "[]" "[]"]
          ex_fold
    by (simp add: f c AddResult_def Add_def SQLE00063_def)
qed

section \<open>Properties of the audit pipeline\<close>

subsection \<open>The loop over the rules\<close>

lemma ruleLoopBody_frame:
  assumes "ruleLoopBody env node rule (i, g) = (i', g')"
  shows "cnf i' = cnf i \<and> isOfflineAudit i' = isOfflineAudit i \<and> rules i' = rules i
       \<and> called i' = called i @ (if ruleApplies env i node rule then [HandlerCall (rule_Name rule)] else [])"
  using assms
  by (auto simp: ruleLoopBody_def ruleApplies_def Let_def
        split: option.splits if_splits prod.splits)

lemma ruleApplies_cong:
  "cnf i' = cnf i \<Longrightarrow> isOfflineAudit i' = isOfflineAudit i \<Longrightarrow>
     ruleApplies env i' node = ruleApplies env i node"
  by (auto simp: ruleApplies_def IsOfflineAudit_def fun_eq_iff split: option.splits)

lemma ruleLoop_frame:
  assumes "ruleLoop env node rs (i, g) = (i', g')"
  shows "cnf i' = cnf i \<and> isOfflineAudit i' = isOfflineAudit i \<and> rules i' = rules i
       \<and> called i' = called i @ map (\<lambda>r. HandlerCall (rule_Name r)) (filter (ruleApplies env i node) rs)"
  using assms
proof (induction rs arbitrary: i g)
  case Nil
  then show ?case by simp
next
  case (Cons rule rs)
  obtain i1 g1 where b: "ruleLoopBody env node rule (i, g) = (i1, g1)"
    by (cases "ruleLoopBody env node rule (i, g)")
  note f = ruleLoopBody_frame [OF b]
  from Cons.prems b have "ruleLoop env node rs (i1, g1) = (i', g')" by simp
  from Cons.IH [OF this] f ruleApplies_cong [of i1 i env node]
  show ?case by auto
qed

lemma ruleLoop_append:
  "ruleLoop env node (xs @ ys) st = ruleLoop env node ys (ruleLoop env node xs st)"
  by (induction xs arbitrary: st) auto

lemma ruleLoopBody_keeps:
  assumes kept: "\<forall>name h f inp. GetRuleHandlerFromAllRules env name = Some h \<and> Func h = Some f
                   \<longrightarrow> set (in_Res inp) \<subseteq> set (fst (snd (f inp)))"
      and "ruleLoopBody env node rule (i, g) = (i', g')"
  shows "set (result i) \<subseteq> set (result i')"
proof (cases "GetRuleHandlerFromAllRules env (rule_Name rule)")
  case None
  with assms(2) show ?thesis by (auto simp: ruleLoopBody_def Let_def)
next
  case (Some h)
  show ?thesis
  proof (cases "Func h")
    case None
    with Some assms(2) show ?thesis by (auto simp: ruleLoopBody_def Let_def)
  next
    case (Some f)
    from kept \<open>GetRuleHandlerFromAllRules env (rule_Name rule) = Some h\<close> Some
    have "set (in_Res \<lparr>in_Ctx = Ctx i, in_Rule = rule, in_Res = result i, in_Node = node\<rparr>)
        \<subseteq> set (fst (snd (f \<lparr>in_Ctx = Ctx i, in_Rule = rule, in_Res = result i, in_Node = node\<rparr>)))"
      by blast
    then have "set (result i)
        \<subseteq> set (fst (snd (f \<lparr>in_Ctx = Ctx i, in_Rule = rule, in_Res = result i, in_Node = node\<rparr>)))"
      by simp
    with Some \<open>GetRuleHandlerFromAllRules env (rule_Name rule) = Some h\<close> assms(2)
    show ?thesis
      by (auto simp: ruleLoopBody_def Let_def AddResultWithError_def
            split: if_splits prod.splits option.splits)
  qed
qed

lemma ruleLoop_keeps:
  assumes kept: "\<forall>name h f inp. GetRuleHandlerFromAllRules env name = Some h \<and> Func h = Some f
                   \<longrightarrow> set (in_Res inp) \<subseteq> set (fst (snd (f inp)))"
      and "ruleLoop env node rs (i, g) = (i', g')"
  shows "set (result i) \<subseteq> set (result i')"
  using assms(2)
proof (induction rs arbitrary: i g)
  case Nil
  then show ?case by simp
next
  case (Cons rule rs)
  obtain i1 g1 where b: "ruleLoopBody env node rule (i, g) = (i1, g1)"
    by (cases "ruleLoopBody env node rule (i, g)")
  from Cons.prems b have "ruleLoop env node rs (i1, g1) = (i', g')" by simp
  from Cons.IH [OF this] ruleLoopBody_keeps [OF kept b]
  show ?case by blast
qed

lemma ruleLoopBody_ghostRule:
  "snd (ruleLoopBody env node rule (i, g)) =
     (if rule_Name rule = ConfigDDLGhostMinSize env then Some rule else g)"
  by (simp add: ruleLoopBody_def Let_def split: option.splits prod.splits)

lemma ruleLoop_ghostRule:
  assumes "ruleLoop env node rs (i, g) = (i', Some r)"
  shows "g = Some r \<or> (r \<in> set rs \<and> rule_Name r = ConfigDDLGhostMinSize env)"
  using assms
proof (induction rs arbitrary: i g)
  case Nil
  then show ?case by simp
next
  case (Cons rule rs)
  obtain i1 g1 where b: "ruleLoopBody env node rule (i, g) = (i1, g1)"
    by (cases "ruleLoopBody env node rule (i, g)")
  have g1: "g1 = (if rule_Name rule = ConfigDDLGhostMinSize env then Some rule else g)"
    using ruleLoopBody_ghostRule [of env node rule i g] b by simp
  from Cons.prems b have "ruleLoop env node rs (i1, g1) = (i', Some r)" by simp
  from Cons.IH [OF this] g1 show ?case by (auto split: if_splits)
qed

text \<open>
  C5. Let the handler of a rule of the driver be called in the loop over the rules and
  return an error. The loop does not stop: by its end the handlers called are those of
  all the rules that the loop dispatches, in the order of the rules, the ones after the
  failing rule included. And the result set of the statement holds a finding with the
  name and the level of the failing rule, which carries the error. For the finding to be
  still there at the end of the loop, handlers must only add findings to the result set
  they are given, which is all that the result set's interface offers them.
\<close>

theorem handler_error_does_not_stop_rule_loop:
  assumes kept: "\<forall>name h f inp. GetRuleHandlerFromAllRules env name = Some h \<and> Func h = Some f
                   \<longrightarrow> set (in_Res inp) \<subseteq> set (fst (snd (f inp)))"
      and before: "ruleLoop env node before (i, g) = (i1, g1)"
      and applies: "ruleApplies env i node rule"
      and handler: "GetRuleHandlerFromAllRules env (rule_Name rule) = Some handler"
                   "Func handler = Some f"
      and fails: "f \<lparr>in_Ctx = Ctx i1, in_Rule = rule, in_Res = result i1, in_Node = node\<rparr>
                    = (ctx, res, Some e)"
      and whole: "ruleLoop env node (before @ rule # rest) (i, g) = (i', g')"
  shows "called i' = called i @ map (\<lambda>r. HandlerCall (rule_Name r))
                                  (filter (ruleApplies env i node) (before @ rule # rest))
       \<and> \<lparr>f_Level = rule_Level rule, f_RuleName = rule_Name rule,
           f_Message = HandlerMessage (Message handler), f_ErrorInfo = Some e,
           f_IsAuditError = True\<rparr> \<in> set (result i')"
proof
  show "called i' = called i @ map (\<lambda>r. HandlerCall (rule_Name r))
                                  (filter (ruleApplies env i node) (before @ rule # rest))"
    using ruleLoop_frame [OF whole] by simp
next
  let ?fd = "\<lparr>f_Level = rule_Level rule, f_RuleName = rule_Name rule,
           f_Message = HandlerMessage (Message handler), f_ErrorInfo = Some e,
           f_IsAuditError = True\<rparr>"
  obtain i2 g2 where b: "ruleLoopBody env node rule (i1, g1) = (i2, g2)"
    by (cases "ruleLoopBody env node rule (i1, g1)")
  have fr: "cnf i1 = cnf i" "isOfflineAudit i1 = isOfflineAudit i"
    using ruleLoop_frame [OF before] by simp_all
  have "ruleApplies env i1 node rule"
    using applies ruleApplies_cong [OF fr] by simp
  with handler fails b have "?fd \<in> set (result i2)"
    by (auto simp: ruleLoopBody_def ruleApplies_def Let_def AddResultWithError_def
          split: if_splits)
  moreover have "ruleLoop env node rest (i2, g2) = (i', g')"
    using whole before b by (simp add: ruleLoop_append)
  ultimately show "?fd \<in> set (result i')"
    using ruleLoop_keeps [OF kept] by blast
qed


lemma ex_kept:
  "\<forall>name h f inp. GetRuleHandlerFromAllRules example_audit_env name = Some h \<and> Func h = Some f
       \<longrightarrow> set (in_Res inp) \<subseteq> set (fst (snd (f inp)))"
  by (auto simp: example_audit_env_def example_handlers_def example_handler_def AddResult_def Add_def
        split: if_splits)

theorem handler_error_witness:
  "called (fst (ruleLoop example_audit_env example_select example_rules (example_driver, None)))
     = [HandlerCall ''failing_rule'', HandlerCall ''naming_rule'']
   \<and> \<lparr>f_Level = RuleLevelWarn, f_RuleName = ''failing_rule'', f_Message = HandlerMessage ''message'',
       f_ErrorInfo = Some (CollaboratorError ''handler failed''), f_IsAuditError = True\<rparr>
      \<in> set (result (fst (ruleLoop example_audit_env example_select example_rules (example_driver, None))))"
proof -
  let ?rule = "\<lparr>rule_Name = ''failing_rule'', rule_Level = RuleLevelWarn\<rparr>"
  let ?rest = "[\<lparr>rule_Name = ''naming_rule'', rule_Level = RuleLevelError\<rparr>,
                \<lparr>rule_Name = ''ddl_ghost_min_size'', rule_Level = RuleLevelNotice\<rparr>]"
  let ?f = "\<lambda>input :: unit rule_handler_input.
              (in_Ctx input, in_Res input, Some (CollaboratorError ''handler failed''))"
  have before: "ruleLoop example_audit_env example_select [] (example_driver, None) = (example_driver, None)"
    by simp
  have h: "GetRuleHandlerFromAllRules example_audit_env (rule_Name ?rule) = Some (example_handler (Some ?f))"
    by (simp add: example_audit_env_def example_handlers_def)
  have hf: "Func (example_handler (Some ?f)) = Some ?f"
    by (simp add: example_handler_def)
  have ap: "ruleApplies example_audit_env example_driver example_select r
              = (rule_Name r = ''failing_rule'' \<or> rule_Name r = ''naming_rule'')" for r
    by (simp add: ruleApplies_def example_audit_env_def example_handlers_def example_handler_def
          IsOfflineAudit_def example_driver_def)
  have fails: "?f \<lparr>in_Ctx = Ctx example_driver, in_Rule = ?rule, in_Res = result example_driver,
                    in_Node = example_select\<rparr> = ((), [], Some (CollaboratorError ''handler failed''))"
    by (simp add: example_driver_def)
  have whole: "ruleLoop example_audit_env example_select ([] @ ?rule # ?rest) (example_driver, None)
      = (fst (ruleLoop example_audit_env example_select example_rules (example_driver, None)),
         snd (ruleLoop example_audit_env example_select example_rules (example_driver, None)))"
    by (simp add: example_rules_def)
  have app: "ruleApplies example_audit_env example_driver example_select ?rule"
    by (simp add: ap)
  have c0: "called example_driver = []"
    by (simp add: example_driver_def)
  show ?thesis
    using handler_error_does_not_stop_rule_loop [OF ex_kept before app h hf fails whole]
    by (simp add: ap example_handler_def c0 example_rules_def)
qed

subsection \<open>The online-DDL decision\<close>

text \<open>The loop finds a rule as \<^verbatim>\<open>ghostRule\<close> whenever the rules hold one with the
  name of the threshold rule.\<close>

lemma ruleLoop_finds_ghostRule:
  assumes "\<exists>r \<in> set rs. rule_Name r = ConfigDDLGhostMinSize env"
  shows "\<exists>g. snd (ruleLoop env node rs (i, g0)) = Some g"
  using assms
proof (induction rs arbitrary: i g0 rule: rev_induct)
  case Nil
  then show ?case by simp
next
  case (snoc x xs)
  obtain i1 g1 where l: "ruleLoop env node xs (i, g0) = (i1, g1)"
    by (cases "ruleLoop env node xs (i, g0)")
  show ?case
  proof (cases "rule_Name x = ConfigDDLGhostMinSize env")
    case True
    then show ?thesis
      using l ruleLoopBody_ghostRule [of env node x i1 g1] by (simp add: ruleLoop_append)
  next
    case False
    with snoc.prems have "\<exists>r \<in> set xs. rule_Name r = ConfigDDLGhostMinSize env" by auto
    from snoc.IH [OF this, of i g0] l obtain g where "g1 = Some g" by auto
    with False show ?thesis
      using l ruleLoopBody_ghostRule [of env node x i1 g1] by (simp add: ruleLoop_append)
  qed
qed

lemma checkInvalidStage_frame:
  "checkInvalidStage env i node = (i', e) \<Longrightarrow> cnf i' = cnf i \<and> rules i' = rules i"
  by (auto simp: checkInvalidStage_def Let_def split: prod.splits option.splits if_splits)

lemma checkExplainStage_frame:
  "checkExplainStage env i node = (i', e) \<Longrightarrow> cnf i' = cnf i \<and> rules i' = rules i"
  by (auto simp: checkExplainStage_def split: prod.splits if_splits)

lemma auditRules_frame:
  assumes "auditRules env i0 sql = (i, Inr (node, ghostRule))"
  shows "cnf i = cnf i0 \<and> rules i = rules i0
       \<and> (\<forall>g. ghostRule = Some g \<longrightarrow> g \<in> set (rules i0) \<and> rule_Name g = ConfigDDLGhostMinSize env)"
proof -
  let ?i1 = "i0\<lparr>result := NewAuditResults, called := called i0 @ [ParseSqlCall sql]\<rparr>"
  from assms obtain nodes where p: "util_ParseSql env sql = Inr (node # nodes)"
    by (auto simp: auditRules_def ParseSql_def Let_def split: sum.splits list.splits prod.splits option.splits)
  from assms p obtain i2 where c1: "checkInvalidStage env ?i1 node = (i2, None)"
    by (auto simp: auditRules_def ParseSql_def Let_def split: prod.splits option.splits)
  from assms p c1 obtain i3 where c2: "checkExplainStage env i2 node = (i3, None)"
    by (auto simp: auditRules_def ParseSql_def Let_def split: prod.splits option.splits)
  from assms p c1 c2 obtain i4 where
    l: "ruleLoop env node (rules i3) (markInvalidSql i3, None) = (i4, ghostRule)"
    and o: "i = optimizeStage env i4 node"
    by (auto simp: auditRules_def ParseSql_def Let_def split: prod.splits option.splits)
  have f3: "cnf i3 = cnf i0" "rules i3 = rules i0"
    using checkInvalidStage_frame [OF c1] checkExplainStage_frame [OF c2] by simp_all
  have f4: "cnf i4 = cnf i0" "rules i4 = rules i0"
    using ruleLoop_frame [OF l] f3 by (simp_all add: markInvalidSql_def)
  have fi: "cnf i = cnf i0" "rules i = rules i0"
    using o f4 by (auto simp: optimizeStage_def split: prod.splits)
  have "g \<in> set (rules i0) \<and> rule_Name g = ConfigDDLGhostMinSize env" if "ghostRule = Some g" for g
    using ruleLoop_ghostRule [of env node "rules i3" "markInvalidSql i3" None i4 g] l that f3 by simp
  with fi show ?thesis by blast
qed


lemma finishAudit_ok:
  assumes "generateOSCCommandLine env (Ctx j) node = (ctx', line, oerr)"
      and "oerr = None \<or> (\<exists>e. oerr = Some e \<and> IsParseShowCreateTableContentErr env e)"
  shows "\<exists>j'. finishAudit env j node = (j', Inr (result j @ oscFinding env line))
              \<and> called j' = called j"
  using assms
  by (auto simp: finishAudit_def oscStage_def updateContextStage_def oscFinding_def Add_def Let_def
        split: option.splits)

lemma int64_of_size_in_range:
  assumes "- (2 ^ 63) \<le> truncateSize x" and "truncateSize x < 2 ^ 63"
  shows "sint (int64_of_size env x) = truncateSize x"
  using assms by (simp add: int64_of_size_def signed_of_int signed_take_bit_int_eq_self)

lemma ghostStage_not_taken:
  assumes "DDLGhostMinSize (cnf i) \<noteq> - 1"
      and "util_ParseSql env sql = Inr (AlterTableStmt stmt # others)"
      and "GetTableSize env (Ctx i) (alt_Table stmt) = (ctx, Inr tableSize)"
      and "\<not> DDLGhostMinSize (cnf i) <s int64_of_size env tableSize"
  shows "ghostStage env i sql ghostRule
           = (i\<lparr>called := called i @ [ParseSqlCall sql], Ctx := ctx\<rparr>, None)"
  using assms by (simp add: ghostStage_def onlineddlWithGhost_def ParseSql_def)

lemma ghostStage_taken:
  assumes "DDLGhostMinSize (cnf i) \<noteq> - 1"
      and "util_ParseSql env sql = Inr (AlterTableStmt stmt # others)"
      and "GetTableSize env (Ctx i) (alt_Table stmt) = (ctx, Inr tableSize)"
      and "DDLGhostMinSize (cnf i) <s int64_of_size env tableSize"
  shows "ghostStage env i sql (Some g)
           = (let schema = GetSchemaName env ctx (alt_Table stmt);
                  j = i\<lparr>called := called i @ [ParseSqlCall sql, ParseSqlCall sql, GhostCall schema sql True],
                         Ctx := ctx\<rparr>
              in case onlineddl_Execute env schema sql True of
                   Some err \<Rightarrow>
                     (j\<lparr>result := Add (result i) RuleLevelError (rule_Name g)
                          (GhostDryRunError (DDLGhostMinSize (cnf i)) (Wrap err ''dry-run gh-ost''))\<rparr>, None)
                 | None \<Rightarrow>
                     (j\<lparr>result := Add (result i) (rule_Level g) (rule_Name g)
                          (GhostDryRunNotice (DDLGhostMinSize (cnf i)))\<rparr>, None))"
  using assms
  by (simp add: ghostStage_def onlineddlWithGhost_def ParseSql_def executeByGhost_def Let_def
        split: option.splits)

text \<open>
  C2, as stated, fails. The size 16.9 of the table \<open>w\<close> exceeds the threshold 16, and
  the online-DDL path is not taken: line 240 compares \<^verbatim>\<open>int64(tableSize)\<close>, which is
  16. With the threshold \<open>-1\<close>, which every size from 0 on exceeds, the path is not
  taken either: line 221 reads that value as no threshold. And the audit of a statement
  whose dry run was made can still end without a result: when the generation of the OSC
  command line fails after it, and, in a driver whose rules do not hold the threshold
  rule (its threshold dates from before \<^verbatim>\<open>SetRules\<close>), when line 438 or 440 reads
  the nil \<^verbatim>\<open>ghostRule\<close>.
\<close>

theorem ghost_path_not_taken_for_fractional_excess:
  "GetTableSize example_audit_env () (alt_Table (example_alter_stmt ''w'')) = ((), Inr (169 / 10))
   \<and> DDLGhostMinSize (cnf example_driver) = 16
   \<and> (16 :: rat) < 169 / 10
   \<and> audit example_audit_env example_driver ''ALTER TABLE w ADD c INT''
       = (example_driver
            \<lparr>result := example_findings,
             called := [ParseSqlCall ''ALTER TABLE w ADD c INT'', HandlerCall ''failing_rule'',
                        HandlerCall ''naming_rule'', ParseSqlCall ''ALTER TABLE w ADD c INT'']\<rparr>,
          Inr example_findings)
   \<and> DDLGhostMinSize (cnf example_driver_unset) = - 1
   \<and> audit example_audit_env example_driver_unset ''ALTER TABLE t ADD c INT''
       = (example_driver_unset
            \<lparr>result := example_findings,
             called := [ParseSqlCall ''ALTER TABLE t ADD c INT'', HandlerCall ''failing_rule'',
                        HandlerCall ''naming_rule'']\<rparr>,
          Inr example_findings)
   \<and> snd (audit example_audit_env_osc_fails example_driver ''ALTER TABLE u ADD c INT'')
       = Inl (CollaboratorError ''osc failed'')
   \<and> snd (audit example_audit_env example_driver_no_ghost_rule ''ALTER TABLE t ADD c INT'')
       = Inl PanicNilDereference"
  by code_simp

text \<open>
  C2, amended. Let the threshold \<open>T\<close> of the driver be set (its field
  \<^verbatim>\<open>DDLGhostMinSize\<close> is not \<open>-1\<close>, the value that stands for no threshold), let the
  audit of an ALTER TABLE statement reach the online-DDL stage with a rule \<open>g\<close> found as
  \<^verbatim>\<open>ghostRule\<close>, and let the size of the table resolve to \<open>S\<close>. Then \<open>g\<close> is a
  rule of the driver with the name of the threshold rule, and the dry run of the
  online-DDL tool is started if and only if \<open>int64(S) > T\<close>, as signed 64-bit numbers,
  where \<open>int64(S)\<close> is \<open>S\<close> without its fraction (for every \<open>S\<close> whose integer part is an
  \<^verbatim>\<open>int64\<close>, that is if and only if the integer part of \<open>S\<close> exceeds \<open>T\<close>):
  \<^item> if not \<open>int64(S) > T\<close>, no call goes to the tool and no finding is added;
  \<^item> if \<open>int64(S) > T\<close> and the dry run fails, a finding of level error is added under
    the name of \<open>g\<close>, and its message carries \<open>T\<close> and the error of the tool;
  \<^item> if \<open>int64(S) > T\<close> and the dry run succeeds, a finding of the level of \<open>g\<close> is
    added under the name of \<open>g\<close>.
  In neither case does the dry run end the audit (by \<open>ghostStage_taken\<close> the stage
  returns no error): the audit goes on to the generation of the OSC command line and,
  unless that stage fails with an error of its own (other than the legacy parse error
  that line 446 lets pass), returns its result set, with the finding in it.
\<close>

theorem ghost_path_iff_truncated_size_exceeds_threshold:
  assumes reach: "auditRules env i0 sql = (i, Inr (node, Some g))"
      and conf: "DDLGhostMinSize (cnf i0) \<noteq> - 1"
      and parse: "util_ParseSql env sql = Inr (AlterTableStmt stmt # others)"
      and size: "GetTableSize env (Ctx i) (alt_Table stmt) = (ctx, Inr tableSize)"
      and osc: "generateOSCCommandLine env ctx node = (ctx', line, oerr)"
               "oerr = None \<or> (\<exists>e. oerr = Some e \<and> IsParseShowCreateTableContentErr env e)"
  shows "(g \<in> set (rules i0) \<and> rule_Name g = ConfigDDLGhostMinSize env)
       \<and> (- (2 ^ 63) \<le> truncateSize tableSize \<and> truncateSize tableSize < 2 ^ 63 \<longrightarrow>
            (DDLGhostMinSize (cnf i0) <s int64_of_size env tableSize)
              = (sint (DDLGhostMinSize (cnf i0)) < truncateSize tableSize))
       \<and> ((\<not> DDLGhostMinSize (cnf i0) <s int64_of_size env tableSize \<longrightarrow>
            (\<exists>i'. audit env i0 sql = (i', Inr (result i @ oscFinding env line))
                 \<and> called i' = called i @ [ParseSqlCall sql]))
       \<and> (DDLGhostMinSize (cnf i0) <s int64_of_size env tableSize
            \<and> onlineddl_Execute env (GetSchemaName env ctx (alt_Table stmt)) sql True = Some err \<longrightarrow>
            (\<exists>i'. audit env i0 sql =
                     (i', Inr (Add (result i) RuleLevelError (rule_Name g)
                                 (GhostDryRunError (DDLGhostMinSize (cnf i0)) (Wrap err ''dry-run gh-ost''))
                               @ oscFinding env line))
                 \<and> called i' = called i @ [ParseSqlCall sql, ParseSqlCall sql,
                                  GhostCall (GetSchemaName env ctx (alt_Table stmt)) sql True]))
       \<and> (DDLGhostMinSize (cnf i0) <s int64_of_size env tableSize
            \<and> onlineddl_Execute env (GetSchemaName env ctx (alt_Table stmt)) sql True = None \<longrightarrow>
            (\<exists>i'. audit env i0 sql =
                     (i', Inr (Add (result i) (rule_Level g) (rule_Name g)
                                 (GhostDryRunNotice (DDLGhostMinSize (cnf i0)))
                               @ oscFinding env line))
                 \<and> called i' = called i @ [ParseSqlCall sql, ParseSqlCall sql,
                                  GhostCall (GetSchemaName env ctx (alt_Table stmt)) sql True])))"
proof -
  have eq: "cnf i0 = cnf i"
    and gr: "g \<in> set (rules i0) \<and> rule_Name g = ConfigDDLGhostMinSize env"
    using auditRules_frame [OF reach] by simp_all
  note conf = conf [unfolded eq]
  have main: "(\<not> DDLGhostMinSize (cnf i) <s int64_of_size env tableSize \<longrightarrow>
            (\<exists>i'. audit env i0 sql = (i', Inr (result i @ oscFinding env line))
                 \<and> called i' = called i @ [ParseSqlCall sql]))
       \<and> (DDLGhostMinSize (cnf i) <s int64_of_size env tableSize
            \<and> onlineddl_Execute env (GetSchemaName env ctx (alt_Table stmt)) sql True = Some err \<longrightarrow>
            (\<exists>i'. audit env i0 sql =
                     (i', Inr (Add (result i) RuleLevelError (rule_Name g)
                                 (GhostDryRunError (DDLGhostMinSize (cnf i)) (Wrap err ''dry-run gh-ost''))
                               @ oscFinding env line))
                 \<and> called i' = called i @ [ParseSqlCall sql, ParseSqlCall sql,
                                  GhostCall (GetSchemaName env ctx (alt_Table stmt)) sql True]))
       \<and> (DDLGhostMinSize (cnf i) <s int64_of_size env tableSize
            \<and> onlineddl_Execute env (GetSchemaName env ctx (alt_Table stmt)) sql True = None \<longrightarrow>
            (\<exists>i'. audit env i0 sql =
                     (i', Inr (Add (result i) (rule_Level g) (rule_Name g)
                                 (GhostDryRunNotice (DDLGhostMinSize (cnf i)))
                               @ oscFinding env line))
                 \<and> called i' = called i @ [ParseSqlCall sql, ParseSqlCall sql,
                                  GhostCall (GetSchemaName env ctx (alt_Table stmt)) sql True]))"
  proof (intro conjI impI)
  assume n: "\<not> DDLGhostMinSize (cnf i) <s int64_of_size env tableSize"
  let ?j = "i\<lparr>called := called i @ [ParseSqlCall sql], Ctx := ctx\<rparr>"
  have "audit env i0 sql = finishAudit env ?j node"
    using reach ghostStage_not_taken [OF conf parse size n]
    by (simp add: audit_def auditDDL_def)
  moreover have "generateOSCCommandLine env (Ctx ?j) node = (ctx', line, oerr)"
    using osc(1) by simp
  from finishAudit_ok [OF this osc(2)]
  obtain j' where "finishAudit env ?j node = (j', Inr (result ?j @ oscFinding env line))"
      "called j' = called ?j" by blast
  ultimately show "\<exists>i'. audit env i0 sql = (i', Inr (result i @ oscFinding env line))
                 \<and> called i' = called i @ [ParseSqlCall sql]"
    by simp
next
  let ?schema = "GetSchemaName env ctx (alt_Table stmt)"
  let ?f = "Add (result i) RuleLevelError (rule_Name g)
              (GhostDryRunError (DDLGhostMinSize (cnf i)) (Wrap err ''dry-run gh-ost''))"
  assume a: "DDLGhostMinSize (cnf i) <s int64_of_size env tableSize
            \<and> onlineddl_Execute env ?schema sql True = Some err"
  let ?j = "i\<lparr>called := called i @ [ParseSqlCall sql, ParseSqlCall sql, GhostCall ?schema sql True],
              Ctx := ctx, result := ?f\<rparr>"
  have "audit env i0 sql = finishAudit env ?j node"
    using reach ghostStage_taken [OF conf parse size, of g] a
    by (simp add: audit_def auditDDL_def Let_def)
  moreover have "generateOSCCommandLine env (Ctx ?j) node = (ctx', line, oerr)"
    using osc(1) by simp
  from finishAudit_ok [OF this osc(2)]
  obtain j' where "finishAudit env ?j node = (j', Inr (result ?j @ oscFinding env line))"
      "called j' = called ?j" by blast
  ultimately show "\<exists>i'. audit env i0 sql = (i', Inr (?f @ oscFinding env line))
                 \<and> called i' = called i @ [ParseSqlCall sql, ParseSqlCall sql, GhostCall ?schema sql True]"
    by simp
next
  let ?schema = "GetSchemaName env ctx (alt_Table stmt)"
  let ?f = "Add (result i) (rule_Level g) (rule_Name g) (GhostDryRunNotice (DDLGhostMinSize (cnf i)))"
  assume a: "DDLGhostMinSize (cnf i) <s int64_of_size env tableSize
            \<and> onlineddl_Execute env ?schema sql True = None"
  let ?j = "i\<lparr>called := called i @ [ParseSqlCall sql, ParseSqlCall sql, GhostCall ?schema sql True],
              Ctx := ctx, result := ?f\<rparr>"
  have "audit env i0 sql = finishAudit env ?j node"
    using reach ghostStage_taken [OF conf parse size, of g] a
    by (simp add: audit_def auditDDL_def Let_def)
  moreover have "generateOSCCommandLine env (Ctx ?j) node = (ctx', line, oerr)"
    using osc(1) by simp
  from finishAudit_ok [OF this osc(2)]
  obtain j' where "finishAudit env ?j node = (j', Inr (result ?j @ oscFinding env line))"
      "called j' = called ?j" by blast
  ultimately show "\<exists>i'. audit env i0 sql = (i', Inr (?f @ oscFinding env line))
                 \<and> called i' = called i @ [ParseSqlCall sql, ParseSqlCall sql, GhostCall ?schema sql True]"
    by simp
qed
  have br: "- (2 ^ 63) \<le> truncateSize tableSize \<and> truncateSize tableSize < 2 ^ 63 \<longrightarrow>
            (DDLGhostMinSize (cnf i) <s int64_of_size env tableSize)
              = (sint (DDLGhostMinSize (cnf i)) < truncateSize tableSize)"
    by (simp add: word_sless_alt int64_of_size_in_range)
  show ?thesis
    unfolding eq by (rule conjI [OF gr conjI [OF br main]])
qed

lemma ex_reach_t:
  "auditRules example_audit_env example_driver ''ALTER TABLE t ADD c INT''
     = (example_after_rules ''ALTER TABLE t ADD c INT'', Inr (example_alter ''t'', Some example_ghost_rule))"
  by code_simp

lemma ex_reach_u:
  "auditRules example_audit_env example_driver ''ALTER TABLE u ADD c INT''
     = (example_after_rules ''ALTER TABLE u ADD c INT'', Inr (example_alter ''u'', Some example_ghost_rule))"
  by code_simp

lemma ex_reach_v:
  "auditRules example_audit_env example_driver ''ALTER TABLE v ADD c INT''
     = (example_after_rules ''ALTER TABLE v ADD c INT'', Inr (example_alter ''v'', Some example_ghost_rule))"
  by code_simp

lemma ex_reach_w:
  "auditRules example_audit_env example_driver ''ALTER TABLE w ADD c INT''
     = (example_after_rules ''ALTER TABLE w ADD c INT'', Inr (example_alter ''w'', Some example_ghost_rule))"
  by code_simp

lemma ex_conf: "DDLGhostMinSize (cnf example_driver) = 16"
  by (simp add: example_driver_def)

lemma ex_parse:
  "util_ParseSql example_audit_env ''ALTER TABLE t ADD c INT'' = Inr (AlterTableStmt (example_alter_stmt ''t'') # [])"
  "util_ParseSql example_audit_env ''ALTER TABLE u ADD c INT'' = Inr (AlterTableStmt (example_alter_stmt ''u'') # [])"
  "util_ParseSql example_audit_env ''ALTER TABLE v ADD c INT'' = Inr (AlterTableStmt (example_alter_stmt ''v'') # [])"
  "util_ParseSql example_audit_env ''ALTER TABLE w ADD c INT'' = Inr (AlterTableStmt (example_alter_stmt ''w'') # [])"
  by (simp_all add: example_audit_env_def example_util_ParseSql_def example_alter_def)

lemma ex_size:
  "GetTableSize example_audit_env c (alt_Table (example_alter_stmt ''t'')) = ((), Inr 17)"
  "GetTableSize example_audit_env c (alt_Table (example_alter_stmt ''u'')) = ((), Inr 17)"
  "GetTableSize example_audit_env c (alt_Table (example_alter_stmt ''v'')) = ((), Inr 16)"
  "GetTableSize example_audit_env c (alt_Table (example_alter_stmt ''w'')) = ((), Inr (169 / 10))"
  by (simp_all add: example_audit_env_def example_alter_stmt_def)

lemma ex_int64_of_size:
  "int64_of_size example_audit_env 17 = 17"
  "int64_of_size example_audit_env 16 = 16"
  "int64_of_size example_audit_env (169 / 10) = 16"
  by code_simp+

lemma ex_osc: "generateOSCCommandLine example_audit_env c node = ((), None, None)"
  by (simp add: example_audit_env_def)

theorem ghost_path_witness:
  "snd (audit example_audit_env example_driver ''ALTER TABLE v ADD c INT'') = Inr example_findings
   \<and> snd (audit example_audit_env example_driver ''ALTER TABLE w ADD c INT'') = Inr example_findings
   \<and> snd (audit example_audit_env example_driver ''ALTER TABLE u ADD c INT'') =
       Inr (example_findings @
            [\<lparr>f_Level = RuleLevelError, f_RuleName = ''ddl_ghost_min_size'',
              f_Message = GhostDryRunError 16 (Wrap (CollaboratorError ''gh-ost failed'') ''dry-run gh-ost''),
              f_ErrorInfo = None, f_IsAuditError = False\<rparr>])
   \<and> snd (audit example_audit_env example_driver ''ALTER TABLE t ADD c INT'') =
       Inr (example_findings @
            [\<lparr>f_Level = RuleLevelNotice, f_RuleName = ''ddl_ghost_min_size'',
              f_Message = GhostDryRunNotice 16, f_ErrorInfo = None, f_IsAuditError = False\<rparr>])"
proof -
  have conf: "DDLGhostMinSize (cnf example_driver) \<noteq> - 1"
    by (simp add: ex_conf)
  have ok: "None = None \<or> (\<exists>e. None = Some e \<and> IsParseShowCreateTableContentErr example_audit_env e)"
    by simp
  have dry: "onlineddl_Execute example_audit_env schema ''ALTER TABLE u ADD c INT'' True
               = Some (CollaboratorError ''gh-ost failed'')"
       "onlineddl_Execute example_audit_env schema ''ALTER TABLE t ADD c INT'' True = None" for schema
    by (simp_all add: example_audit_env_def)
  have res: "result (example_after_rules sql) = example_findings" for sql
    by (simp add: example_after_rules_def)
  show ?thesis
    using ghost_path_iff_truncated_size_exceeds_threshold
            [OF ex_reach_v conf ex_parse(3) ex_size(3) ex_osc ok]
      ghost_path_iff_truncated_size_exceeds_threshold
            [OF ex_reach_w conf ex_parse(4) ex_size(4) ex_osc ok]
      ghost_path_iff_truncated_size_exceeds_threshold
            [OF ex_reach_u conf ex_parse(2) ex_size(2) ex_osc ok,
             of "CollaboratorError ''gh-ost failed''"]
      ghost_path_iff_truncated_size_exceeds_threshold
            [OF ex_reach_t conf ex_parse(1) ex_size(1) ex_osc ok]
      dry
    by (auto simp: ex_conf res oscFinding_def Add_def example_ghost_rule_def word_sless_alt
          ex_int64_of_size)
qed

subsection \<open>A batch of statements\<close>

lemma auditLoop_append:
  "auditLoop env i (xs @ ys) results =
     (case auditLoop env i xs results of
        (i', (Some rs, None)) \<Rightarrow> auditLoop env i' ys rs
      | other \<Rightarrow> other)"
  by (induction xs arbitrary: i results) (auto split: prod.splits sum.splits)

text \<open>
  C6, as stated, fails: when the audit of a statement of the batch fails,
  \<^verbatim>\<open>Audit\<close> returns nil for the results, not the results of the statements audited
  before. Here the first statement is audited with a result and the second does not
  parse.
\<close>

theorem Audit_returns_no_partial_results:
  "snd (audit example_audit_env example_driver ''SELECT 1'') = Inr example_findings
   \<and> snd (Audit example_audit_env example_driver [''SELECT 1'', ''SELEC''])
       = (None, Some (CollaboratorError ''syntax error''))"
  by code_simp

text \<open>
  C6, amended. When a batch without an empty statement is audited and the audit of one
  of its statements fails, after the audits of all the statements before it have
  returned their results, \<^verbatim>\<open>Audit\<close> returns that error and no results (nil): the
  results of the statements before are not returned. The statements after the failing
  one are not audited: the driver is left as the failing audit left it.
\<close>

theorem Audit_failure_returns_error_only:
  assumes "[] \<notin> set (before @ sql # rest)"
      and "auditLoop env i before [] = (i1, (Some results, None))"
      and "audit env i1 sql = (i2, Inl err)"
  shows "Audit env i (before @ sql # rest) = (i2, (None, Some err))"
  using assms by (simp add: Audit_def list_ex_iff auditLoop_append)

theorem Audit_failure_witness:
  "snd (Audit example_audit_env example_driver [''SELECT 1'', ''SELEC'', ''SELECT 1''])
       = (None, Some (CollaboratorError ''syntax error''))
   \<and> called (fst (Audit example_audit_env example_driver [''SELECT 1'', ''SELEC'', ''SELECT 1'']))
       = [ParseSqlCall ''SELECT 1'', HandlerCall ''failing_rule'', HandlerCall ''naming_rule'',
          ParseSqlCall ''SELECT 1'', ParseSqlCall ''SELEC'']"
proof -
  let ?d1 = "fst (audit example_audit_env example_driver ''SELECT 1'')"
  let ?d2 = "fst (audit example_audit_env ?d1 ''SELEC'')"
  have "snd (audit example_audit_env example_driver ''SELECT 1'') = Inr example_findings"
    by code_simp
  then have l1: "auditLoop example_audit_env example_driver [''SELECT 1''] []
              = (?d1, (Some [example_findings], None))"
    by (simp add: case_prod_unfold)
  have "snd (audit example_audit_env ?d1 ''SELEC'') = Inl (CollaboratorError ''syntax error'')"
    by code_simp
  then have a2: "audit example_audit_env ?d1 ''SELEC'' = (?d2, Inl (CollaboratorError ''syntax error''))"
    by (simp add: prod_eq_iff)
  have ne: "[] \<notin> set ([''SELECT 1''] @ ''SELEC'' # [''SELECT 1''])"
    by simp
  have c: "called ?d2 = [ParseSqlCall ''SELECT 1'', HandlerCall ''failing_rule'', HandlerCall ''naming_rule'',
          ParseSqlCall ''SELECT 1'', ParseSqlCall ''SELEC'']"
    by code_simp
  show ?thesis
    using Audit_failure_returns_error_only [OF ne l1 a2] c by simp
qed

text \<open>
  C10. If any element of the list of SQL strings given to \<^verbatim>\<open>Audit\<close> is the empty
  string, \<^verbatim>\<open>Audit\<close> returns the error \<open>has empty sql\<close> and nil for the results, and
  the driver is as it was: no statement of the batch was audited, not even those that
  come before the empty one.
\<close>

theorem Audit_rejects_empty_sql:
  assumes "[] \<in> set sqls"
  shows "Audit env i sqls = (i, (None, Some HasEmptySql))"
  using assms by (auto simp: Audit_def list_ex_iff)

theorem Audit_empty_sql_witness:
  "Audit example_audit_env example_driver [''SELECT 1'', [], ''SELECT 1'']
     = (example_driver, (None, Some HasEmptySql))"
  using Audit_rejects_empty_sql [of "[''SELECT 1'', [], ''SELECT 1'']" example_audit_env example_driver]
  by simp

end
